theory Spec2Isabelle
  imports Main
begin

section \<open>Errors, console and the store\<close>

text \<open>
  The two exception classes the server throws: \<open>HttpError(message, statusCode)\<close> of
  \<open>middleware/errorHandler.ts\<close> and the plain JavaScript \<open>Error(message)\<close>, which is
  also what the sqlite3 driver hands to a callback as \<open>err\<close>.
\<close>

datatype error = HttpError string nat | Error string


text \<open>Decimal rendering of a number inside a template string.\<close>

fun show_nat :: "nat \<Rightarrow> string" where
  "show_nat n =
     (if n < 10 then [char_of (48 + n)]
      else show_nat (n div 10) @ [char_of (48 + n mod 10)])"

declare show_nat.simps [simp del]

definition show_int :: "int \<Rightarrow> string" where
  "show_int i = (if i < 0 then CHR ''-'' # show_nat (nat (- i)) else show_nat (nat i))"

text \<open>What the process writes with \<open>console.log\<close>, \<open>console.warn\<close> and
  \<open>console.error\<close>; the last one may carry the caught exception.\<close>

datatype console_entry =
    ConsoleLog string
  | ConsoleWarn string
  | ConsoleError string error

text \<open>
  A row of the \<open>users\<close> table, restricted to the columns the credit service reads and
  writes (\<open>credits INTEGER\<close>, \<open>is_subscribed BOOLEAN\<close> stored as 0/1,
  \<open>subscription_expires_at DATETIME\<close>, nullable). The expiry column is written only as
  \<open>Date.toISOString()\<close> or \<open>null\<close>; it is represented by the instant it denotes (the
  milliseconds \<open>new Date(text)\<close> yields), \<open>None\<close> being SQL \<open>NULL\<close>.
\<close>

record user_row =
  row_credits :: int
  row_is_subscribed :: int
  row_subscription_expires_at :: "int option"

text \<open>
  The process state the credit service can observe. \<open>users\<close> is the table keyed by
  \<open>id\<close>; \<open>clock\<close> is what \<open>new Date()\<close> reads; \<open>console\<close> collects the log lines,
  newest last. \<open>faults\<close> drives the \<open>err\<close> argument of the driver's callbacks: each
  statement sent to the store consumes the head of the list, \<open>Some m\<close> makes that
  statement fail with \<open>Error m\<close> and leave the tables alone, \<open>None\<close> (or an exhausted
  list) lets it run. Quantifying over \<open>faults\<close> quantifies over every pattern of store
  failures.
\<close>

record world =
  users :: "int \<rightharpoonup> user_row"
  clock :: int
  faults :: "string option list"
  console :: "console_entry list"

type_synonym ('r, 'w) action = "'w \<Rightarrow> (error + 'r) \<times> 'w"

definition db_fault :: "'a world_scheme \<Rightarrow> string option \<times> 'a world_scheme" where
  "db_fault w = (case faults w of [] \<Rightarrow> (None, w) | f # fs \<Rightarrow> (f, w\<lparr>faults := fs\<rparr>))"

definition console_out :: "console_entry \<Rightarrow> 'a world_scheme \<Rightarrow> 'a world_scheme" where
  "console_out e w = w\<lparr>console := console w @ [e]\<rparr>"

section \<open>Credit service\<close>

text \<open>The interfaces \<open>User\<close> and \<open>CreditCheckResult\<close> of \<open>services/creditService.ts\<close>.\<close>

record User =
  ident :: int
  credits :: int
  isSubscribed :: bool
  subscriptionExpiresAt :: "int option"

record CreditCheckResult =
  canProceed :: bool
  user :: "User option"
  reason :: "string option"

text \<open>\<open>SELECT id, credits, is_subscribed, subscription_expires_at FROM users WHERE id = ?\<close>
  through \<open>db.get\<close>: the row, or \<open>undefined\<close> when there is none.\<close>

definition select_user :: "int \<Rightarrow> (user_row option, 'a world_scheme) action" where
  "select_user userId w =
     (case db_fault w of
        (Some m, w1) \<Rightarrow> (Inl (Error m), w1)
      | (None, w1) \<Rightarrow> (Inr (users w1 userId), w1))"

text \<open>\<open>updateSubscriptionStatus(userId, isSubscribed, expiresAt?)\<close>:
  \<open>UPDATE users SET is_subscribed = ?, subscription_expires_at = ? WHERE id = ?\<close> with
  \<open>isSubscribed ? 1 : 0\<close> and \<open>expiresAt?.toISOString() || null\<close>. The update of a
  missing row changes nothing and is not an error.\<close>

definition updateSubscriptionStatus ::
  "int \<Rightarrow> bool \<Rightarrow> int option \<Rightarrow> (unit, 'a world_scheme) action" where
  "updateSubscriptionStatus userId isSub expiresAt w =
     (case db_fault w of
        (Some m, w1) \<Rightarrow> (Inl (Error m), w1)
      | (None, w1) \<Rightarrow>
          (Inr (),
           console_out
             (ConsoleLog (''Updated subscription status for user '' @ show_int userId @ '': ''
                          @ (if isSub then ''true'' else ''false'')))
             (w1\<lparr>users :=
                  (case users w1 userId of
                     None \<Rightarrow> users w1
                   | Some r \<Rightarrow>
                       (users w1)(userId \<mapsto>
                          r\<lparr>row_is_subscribed := (if isSub then 1 else 0),
                            row_subscription_expires_at := expiresAt\<rparr>))\<rparr>)))"

text \<open>A subscription in force at instant \<open>now\<close>: the flag is set and no passed expiry
  is stored.\<close>

definition in_force :: "int \<Rightarrow> user_row \<Rightarrow> bool" where
  "in_force now r =
     (row_is_subscribed r = 1
      \<and> (case row_subscription_expires_at r of None \<Rightarrow> True | Some t \<Rightarrow> t > now))"

text \<open>The tail of \<open>checkCredits\<close>: the balance test for non-subscribers.\<close>

definition balance_check :: "User \<Rightarrow> CreditCheckResult" where
  "balance_check userData =
     (if \<not> isSubscribed userData \<and> credits userData \<le> 0
      then \<lparr>canProceed = False, user = Some userData, reason = Some ''Insufficient credits''\<rparr>
      else \<lparr>canProceed = True, user = Some userData, reason = None\<rparr>)"

text \<open>The \<open>userData\<close> object \<open>checkCredits\<close> builds from the row it read;
  \<open>is_subscribed === 1\<close> decides the flag.\<close>

definition user_of :: "int \<Rightarrow> user_row \<Rightarrow> User" where
  "user_of uid row =
     \<lparr>ident = uid, credits = row_credits row,
      isSubscribed = (row_is_subscribed row = 1),
      subscriptionExpiresAt = row_subscription_expires_at row\<rparr>"

text \<open>
  \<open>checkCredits(userId?)\<close>. \<open>!userId\<close> holds for \<open>undefined\<close> and for \<open>0\<close>. The
  subscription branch is entered only when the flag is set and an expiry is stored;
  \<open>expirationDate > now\<close> keeps the subscriber, anything else downgrades the row first.
\<close>

definition checkCredits :: "int option \<Rightarrow> (CreditCheckResult, 'a world_scheme) action" where
  "checkCredits userId w =
     (case userId of
        None \<Rightarrow>
          (Inr \<lparr>canProceed = False, user = None, reason = Some ''Authentication required''\<rparr>, w)
      | Some uid \<Rightarrow>
          if uid = 0
          then (Inr \<lparr>canProceed = False, user = None,
                     reason = Some ''Authentication required''\<rparr>, w)
          else
            (case select_user uid w of
               (Inl e, w1) \<Rightarrow> (Inl e, w1)
             | (Inr None, w1) \<Rightarrow>
                 (Inr \<lparr>canProceed = False, user = None, reason = Some ''User not found''\<rparr>, w1)
             | (Inr (Some row), w1) \<Rightarrow>
                 (let userData = user_of uid row
                  in case (if isSubscribed userData then subscriptionExpiresAt userData
                           else None) of
                       Some expirationDate \<Rightarrow>
                         if expirationDate > clock w1
                         then (Inr \<lparr>canProceed = True, user = Some userData,
                                    reason = None\<rparr>, w1)
                         else
                           (case updateSubscriptionStatus uid False None w1 of
                              (Inl e, w2) \<Rightarrow> (Inl e, w2)
                            | (Inr _, w2) \<Rightarrow>
                                (Inr (balance_check
                                        (userData\<lparr>isSubscribed := False,
                                                  subscriptionExpiresAt := None\<rparr>)), w2))
                     | None \<Rightarrow> (Inr (balance_check userData), w1))))"

text \<open>\<open>a || b\<close> on strings: the empty string is falsy.\<close>

definition or_default :: "string option \<Rightarrow> string \<Rightarrow> string" where
  "or_default s d = (case s of None \<Rightarrow> d | Some r \<Rightarrow> if r = [] then d else r)"

text \<open>
  The statement \<open>UPDATE users SET credits = credits - 1 WHERE id = ? AND credits > 0\<close>
  with its callback: \<open>this.changes === 0\<close> (no such row, or a balance that is not
  positive) rejects with the insufficient-credits error.
\<close>

definition deduct_update :: "int \<Rightarrow> (unit, 'a world_scheme) action" where
  "deduct_update userId w =
     (case db_fault w of
        (Some m, w1) \<Rightarrow> (Inl (Error m), w1)
      | (None, w1) \<Rightarrow>
          (case users w1 userId of
             None \<Rightarrow> (Inl (Error ''Failed to deduct credit - insufficient credits''), w1)
           | Some r \<Rightarrow>
               if row_credits r > 0
               then (Inr (),
                     console_out (ConsoleLog (''Credit deducted for user '' @ show_int userId))
                       (w1\<lparr>users := (users w1)(userId \<mapsto> r\<lparr>row_credits := row_credits r - 1\<rparr>)\<rparr>))
               else (Inl (Error ''Failed to deduct credit - insufficient credits''), w1)))"

text \<open>
  The first half of \<open>deductCredits\<close>: the user record the deduction decides on, either
  the pre-fetched \<open>userInfo\<close> or the one \<open>checkCredits\<close> returns; a denied check throws
  \<open>HttpError(reason || 'Cannot deduct credits', 402)\<close>.
\<close>

definition deduct_user :: "int \<Rightarrow> User option \<Rightarrow> (User option, 'a world_scheme) action" where
  "deduct_user userId userInfo w =
     (case userInfo of
        Some u \<Rightarrow> (Inr (Some u), w)
      | None \<Rightarrow>
          (case checkCredits (Some userId) w of
             (Inl e, w1) \<Rightarrow> (Inl e, w1)
           | (Inr creditCheck, w1) \<Rightarrow>
               if \<not> canProceed creditCheck
               then (Inl (HttpError (or_default (reason creditCheck) ''Cannot deduct credits'') 402),
                     w1)
               else (Inr (user creditCheck), w1)))"

text \<open>\<open>deductCredits(userId, userInfo?)\<close>; \<open>user?.isSubscribed\<close> is falsy for a missing
  user.\<close>

definition deductCredits :: "int \<Rightarrow> User option \<Rightarrow> (unit, 'a world_scheme) action" where
  "deductCredits userId userInfo w =
     (case deduct_user userId userInfo w of
        (Inl e, w1) \<Rightarrow> (Inl e, w1)
      | (Inr u, w1) \<Rightarrow>
          if (case u of None \<Rightarrow> False | Some u' \<Rightarrow> isSubscribed u')
          then (Inr (),
                console_out
                  (ConsoleLog (''User '' @ show_int userId @ '' is subscribed - no credit deduction''))
                  w1)
          else deduct_update userId w1)"

text \<open>\<open>getUserCredits(userId)\<close>: \<open>creditCheck.user || null\<close>.\<close>

definition getUserCredits :: "int \<Rightarrow> (User option, 'a world_scheme) action" where
  "getUserCredits userId w =
     (case checkCredits (Some userId) w of
        (Inl e, w1) \<Rightarrow> (Inl e, w1)
      | (Inr creditCheck, w1) \<Rightarrow> (Inr (user creditCheck), w1))"

text \<open>\<open>UPDATE users SET credits = credits + 1 WHERE id = ?\<close>; the callback does not
  look at \<open>this.changes\<close>.\<close>

definition refund_update :: "int \<Rightarrow> (unit, 'a world_scheme) action" where
  "refund_update userId w =
     (case db_fault w of
        (Some m, w1) \<Rightarrow> (Inl (Error m), w1)
      | (None, w1) \<Rightarrow>
          (Inr (),
           console_out (ConsoleLog (''Credit refunded to user '' @ show_int userId))
             (w1\<lparr>users :=
                  (case users w1 userId of
                     None \<Rightarrow> users w1
                   | Some r \<Rightarrow> (users w1)(userId \<mapsto> r\<lparr>row_credits := row_credits r + 1\<rparr>))\<rparr>)))"

text \<open>The body of the \<open>try\<close> block of \<open>refundCredits\<close>.\<close>

definition refund_body :: "int \<Rightarrow> (unit, 'a world_scheme) action" where
  "refund_body userId w =
     (case getUserCredits userId w of
        (Inl e, w1) \<Rightarrow> (Inl e, w1)
      | (Inr None, w1) \<Rightarrow>
          (Inr (),
           console_out
             (ConsoleWarn (''Cannot refund credits - user '' @ show_int userId @ '' not found''))
             w1)
      | (Inr (Some u), w1) \<Rightarrow>
          if isSubscribed u
          then (Inr (),
                console_out
                  (ConsoleLog (''User '' @ show_int userId
                               @ '' is subscribed - no credit refund needed''))
                  w1)
          else refund_update userId w1)"

text \<open>\<open>refundCredits(userId)\<close>: the \<open>catch\<close> logs the exception and returns.\<close>

definition refundCredits :: "int \<Rightarrow> (unit, 'a world_scheme) action" where
  "refundCredits userId w =
     (case refund_body userId w of
        (Inl e, w1) \<Rightarrow>
          (Inr (),
           console_out
             (ConsoleError (''Failed to refund credits for user '' @ show_int userId @ '':'') e)
             w1)
      | (Inr _, w1) \<Rightarrow> (Inr (), w1))"

text \<open>
  \<open>executeWithRollback(userId, operation)\<close>. The \<open>catch\<close> sees either the exception of
  \<open>deductCredits\<close> (then \<open>creditDeducted\<close> is still false) or the one of \<open>operation\<close>
  (then it is true and the refund runs); in both cases it re-throws what it caught.
\<close>

definition executeWithRollback ::
  "int \<Rightarrow> ('r, 'a world_scheme) action \<Rightarrow> ('r, 'a world_scheme) action" where
  "executeWithRollback userId operation w =
     (case deductCredits userId None w of
        (Inl e, w1) \<Rightarrow> (Inl e, w1)
      | (Inr _, w1) \<Rightarrow>
          (case operation w1 of
             (Inr result, w2) \<Rightarrow> (Inr result, w2)
           | (Inl e, w2) \<Rightarrow>
               (case refundCredits userId
                       (console_out
                          (ConsoleLog (''Operation failed, rolling back credit deduction for user ''
                                       @ show_int userId))
                          w2) of
                  (Inl e', w3) \<Rightarrow> (Inl e', w3)
                | (Inr _, w3) \<Rightarrow> (Inl e, w3))))"

section \<open>Transaction coordinator\<close>

text \<open>
  \<open>database/transaction.ts\<close>. A \<open>TransactionOperation\<close> is a query string with optional
  positional parameters; a \<open>DatabaseTransaction\<close> collects operations and remembers
  whether it has been executed.
\<close>

record 'p TransactionOperation =
  query :: string
  params :: "'p list option"

record 'p DatabaseTransaction =
  operations :: "'p TransactionOperation list"
  isExecuted :: bool

definition add ::
  "string \<Rightarrow> 'p list option \<Rightarrow> 'p DatabaseTransaction \<Rightarrow> error + 'p DatabaseTransaction" where
  "add q ps t =
     (if isExecuted t
      then Inl (Error ''Cannot add operations to an already executed transaction'')
      else Inr (t\<lparr>operations := operations t @ [\<lparr>query = q, params = ps\<rparr>]\<rparr>))"

text \<open>
  The sqlite3 driver is outside the repository; its three entry points are parameters.
  \<open>db_run q ps d\<close> is \<open>db.run\<close> on content \<open>d\<close>: an error message, or
  \<open>(this.lastID, this.changes)\<close> with the new content. \<open>db_get q ps d\<close> is \<open>db.get\<close>:
  an error message, or the first row if any. \<open>db_commit d\<close> is the \<open>err\<close> of
  \<open>COMMIT\<close>. A statement that fails leaves the content as it was.
\<close>

record ('db, 'p, 'row) driver =
  db_run :: "string \<Rightarrow> 'p list \<Rightarrow> 'db \<Rightarrow> string + ((nat \<times> nat) \<times> 'db)"
  db_get :: "string \<Rightarrow> 'p list \<Rightarrow> 'db \<Rightarrow> string + 'row option"
  db_commit :: "'db \<Rightarrow> string option"

text \<open>
  The connection: \<open>content\<close> is what a later read sees, \<open>issued\<close> the transaction
  control statements sent so far. \<open>BEGIN TRANSACTION\<close> and \<open>ROLLBACK\<close> are SQLite's: a
  rollback puts back the content the \<open>BEGIN\<close> saw. As in the source, neither is checked
  for an error, and no transaction is taken to be open when \<open>execute\<close> starts.
\<close>

record 'db connection =
  content :: 'db
  issued :: "string list"

text \<open>What an operation leaves in \<open>results[index]\<close>: the row of a \<open>SELECT\<close>, or
  \<open>{ lastID, changes }\<close> with \<open>lastID\<close> present only when truthy.\<close>

datatype 'row op_result = Row "'row option" | RunInfo "nat option" nat

text \<open>\<open>query.trim().toUpperCase().startsWith('SELECT')\<close>, on ASCII.\<close>

definition is_space :: "char \<Rightarrow> bool" where
  "is_space c = (of_char c \<in> {9, 10, 11, 12, 13, 32 :: nat})"

definition trim :: "string \<Rightarrow> string" where
  "trim s = rev (dropWhile is_space (rev (dropWhile is_space s)))"

definition toUpperCase :: "string \<Rightarrow> string" where
  "toUpperCase s =
     map (\<lambda>c. if 97 \<le> (of_char c :: nat) \<and> (of_char c :: nat) \<le> 122
              then char_of ((of_char c :: nat) - 32) else c) s"

definition startsWith :: "string \<Rightarrow> string \<Rightarrow> bool" where
  "startsWith s p = (take (length p) s = p)"

definition is_select :: "string \<Rightarrow> bool" where
  "is_select q = startsWith (toUpperCase (trim q)) ''SELECT''"

text \<open>\<open>executeOperation\<close>: one promise per operation, rejected with the driver's \<open>err\<close>
  or resolved with the result.\<close>

definition executeOperation ::
  "('db, 'p, 'row) driver \<Rightarrow> 'p TransactionOperation \<Rightarrow> 'db
     \<Rightarrow> (string + 'row op_result) \<times> 'db" where
  "executeOperation drv operation d =
     (let ps = (case params operation of None \<Rightarrow> [] | Some ps \<Rightarrow> ps)
      in if is_select (query operation)
         then (case db_get drv (query operation) ps d of
                 Inl err \<Rightarrow> (Inl err, d)
               | Inr row \<Rightarrow> (Inr (Row row), d))
         else (case db_run drv (query operation) ps d of
                 Inl err \<Rightarrow> (Inl err, d)
               | Inr ((lastID, changes), d') \<Rightarrow>
                   (Inr (RunInfo (if lastID \<noteq> 0 then Some lastID else None) changes), d')))"

text \<open>
  \<open>this.operations.map(executeOperation)\<close> inside \<open>db.serialize\<close>: every operation is
  queued at once and the driver runs the queue in order, each statement on the content
  its predecessor left, whether or not an earlier one failed.
\<close>

fun run_operations ::
  "('db, 'p, 'row) driver \<Rightarrow> 'p TransactionOperation list \<Rightarrow> 'db
     \<Rightarrow> (string + 'row op_result) list \<times> 'db" where
  "run_operations drv [] d = ([], d)"
| "run_operations drv (operation # rest) d =
     (case executeOperation drv operation d of
        (r, d1) \<Rightarrow> (case run_operations drv rest d1 of (rs, d2) \<Rightarrow> (r # rs, d2)))"

text \<open>\<open>Promise.all\<close> rejects with the first rejection; the statements settle in queue
  order.\<close>

fun first_rejection :: "(string + 'a) list \<Rightarrow> string option" where
  "first_rejection [] = None"
| "first_rejection (Inl err # rs) = Some err"
| "first_rejection (Inr _ # rs) = first_rejection rs"

fun resolved :: "(string + 'a) list \<Rightarrow> 'a list" where
  "resolved [] = []"
| "resolved (Inl _ # rs) = resolved rs"
| "resolved (Inr x # rs) = x # resolved rs"

text \<open>
  \<open>execute()\<close>. A second call throws before anything is sent. Otherwise: \<open>BEGIN\<close>, the
  operations, then \<open>COMMIT\<close> if none was rejected (a failing \<open>COMMIT\<close> is followed by
  \<open>ROLLBACK\<close> and its own error), or \<open>ROLLBACK\<close> and
  \<open>Error(`Transaction failed: ${error.message}`)\<close>.
\<close>

definition execute ::
  "('db, 'p, 'row) driver \<Rightarrow> 'p DatabaseTransaction \<Rightarrow> 'db connection
     \<Rightarrow> (error + 'row op_result list) \<times> 'p DatabaseTransaction \<times> 'db connection" where
  "execute drv t c =
     (if isExecuted t
      then (Inl (Error ''Transaction has already been executed''), t, c)
      else
        (let t' = t\<lparr>isExecuted := True\<rparr>;
             began = content c;
             sent = issued c @ [''BEGIN TRANSACTION'']
         in case run_operations drv (operations t) began of
              (rs, d) \<Rightarrow>
                (case first_rejection rs of
                   Some err \<Rightarrow>
                     (Inl (Error (''Transaction failed: '' @ err)), t',
                      \<lparr>content = began, issued = sent @ [''ROLLBACK'']\<rparr>)
                 | None \<Rightarrow>
                     (case db_commit drv d of
                        Some err \<Rightarrow>
                          (Inl (Error ''Transaction commit failed and was rolled back''), t',
                           \<lparr>content = began, issued = sent @ [''COMMIT'', ''ROLLBACK'']\<rparr>)
                      | None \<Rightarrow>
                          (Inr (resolved rs), t',
                           \<lparr>content = d, issued = sent @ [''COMMIT'']\<rparr>)))))"

text \<open>\<open>withTransaction(operations)\<close>: a fresh transaction, every operation added, then
  executed.\<close>

definition withTransaction ::
  "('db, 'p, 'row) driver \<Rightarrow> 'p TransactionOperation list \<Rightarrow> 'db connection
     \<Rightarrow> (error + 'row op_result list) \<times> 'db connection" where
  "withTransaction drv ops c =
     (case execute drv \<lparr>operations = ops, isExecuted = False\<rparr> c of
        (res, _, c') \<Rightarrow> (res, c'))"


section \<open>Job orchestrator and status read model\<close>

text \<open>
  The tables of \<open>database/init.ts\<close> that \<open>routes/process.ts\<close> touches, restricted to the
  columns it reads or writes (the \<open>created_at\<close>/\<open>updated_at\<close> stamps are left out).
  SQLite \<open>REAL\<close> columns are values of an arbitrary linearly ordered type \<open>'t\<close>; only
  their order matters here. Field names carry a table prefix because field names are
  global in a theory.
\<close>

record video_row =
  v_original_filename :: string
  v_file_path :: string
  v_file_size :: int
  v_mime_type :: string

record job_row =
  pr_video_id :: int
  pr_user_id :: "int option"
  pr_status :: string
  pr_progress :: int
  pr_error_message :: "string option"

record 't clip_row =
  hc_id :: int
  hc_processing_result_id :: int
  hc_title :: string
  hc_file_path :: string
  hc_thumbnail_path :: "string option"
  hc_duration :: 't
  hc_start_time :: 't
  hc_end_time :: 't
  hc_confidence_score :: 't

record 't thumbnail_row =
  th_id :: int
  th_processing_result_id :: int
  th_file_path :: string
  th_timestamp :: 't
  th_width :: "int option"
  th_height :: "int option"

record caption_row =
  cp_id :: int
  cp_processing_result_id :: int
  cp_platform :: string
  cp_content :: string
  cp_hashtags :: "string option"

text \<open>
  The server state extends the state of the credit service with these tables.
  \<open>results_seq\<close> is the \<open>AUTOINCREMENT\<close> counter of \<open>processing_results\<close>; the three
  derived tables are kept in insertion order.
\<close>

record 't server = world +
  videos :: "int \<rightharpoonup> video_row"
  processing_results :: "int \<rightharpoonup> job_row"
  results_seq :: int
  highlight_clips :: "'t clip_row list"
  thumbnails :: "'t thumbnail_row list"
  captions :: "caption_row list"

text \<open>What the handlers read of the request: \<open>parseInt(req.params.id)\<close> (\<open>None\<close> is
  \<open>NaN\<close>) and \<open>req.user\<close> as \<open>optionalAuth\<close> left it.\<close>

record auth_user =
  au_id :: int
  au_email :: string

record request =
  rq_id :: "int option"
  rq_user :: "auth_user option"

record ProcessingStartResponse =
  psr_message :: string
  psr_processingId :: int

text \<open>The closure handed to \<open>setImmediate\<close>: \<open>req.user?.id\<close>, the video id and the id of
  the new row.\<close>

record detached_task =
  task_userId :: "int option"
  task_videoId :: int
  task_resultId :: int

definition select_video :: "int \<Rightarrow> (video_row option, ('t, 'z) server_scheme) action" where
  "select_video videoId s =
     (case db_fault s of
        (Some m, s1) \<Rightarrow> (Inl (Error m), s1)
      | (None, s1) \<Rightarrow> (Inr (videos s1 videoId), s1))"

text \<open>\<open>INSERT INTO processing_results (video_id, user_id, status, progress) VALUES
  (?, ?, 'processing', 0)\<close>, resolving with \<open>this.lastID\<close>.\<close>

definition insert_processing_result ::
  "int \<Rightarrow> int option \<Rightarrow> (int, ('t, 'z) server_scheme) action" where
  "insert_processing_result videoId userId s =
     (case db_fault s of
        (Some m, s1) \<Rightarrow> (Inl (Error m), s1)
      | (None, s1) \<Rightarrow>
          (let lastID = results_seq s1 + 1
           in (Inr lastID,
               s1\<lparr>processing_results :=
                    (processing_results s1)(lastID \<mapsto>
                       \<lparr>pr_video_id = videoId, pr_user_id = userId,
                        pr_status = ''processing'', pr_progress = 0,
                        pr_error_message = None\<rparr>),
                  results_seq := lastID\<rparr>)))"

text \<open>\<open>x || null\<close> on a number: \<open>0\<close> is falsy.\<close>

definition truthy_id :: "int option \<Rightarrow> int option" where
  "truthy_id x = (case x of None \<Rightarrow> None | Some i \<Rightarrow> if i = 0 then None else Some i)"

text \<open>
  The synchronous part of \<open>POST /process/:id\<close>, up to \<open>res.json\<close>. An exception goes to
  \<open>next(error)\<close>; a normal return carries the response and the task given to
  \<open>setImmediate\<close>, which runs after the handler has returned.
\<close>

definition process_start ::
  "request \<Rightarrow> (ProcessingStartResponse \<times> detached_task, ('t, 'z) server_scheme) action" where
  "process_start req s =
     (case rq_id req of
        None \<Rightarrow> (Inl (HttpError ''Invalid video ID'' 400), s)
      | Some videoId \<Rightarrow>
          (case (case rq_user req of
                   None \<Rightarrow> (Inr (), s)
                 | Some u \<Rightarrow>
                     (case checkCredits (Some (au_id u)) s of
                        (Inl e, s1) \<Rightarrow> (Inl e, s1)
                      | (Inr creditCheck, s1) \<Rightarrow>
                          if \<not> canProceed creditCheck
                          then (Inl (HttpError (or_default (reason creditCheck)
                                                   ''Insufficient credits'') 402), s1)
                          else (Inr (), s1))) of
             (Inl e, s1) \<Rightarrow> (Inl e, s1)
           | (Inr _, s1) \<Rightarrow>
               (case select_video videoId s1 of
                  (Inl e, s2) \<Rightarrow> (Inl e, s2)
                | (Inr None, s2) \<Rightarrow> (Inl (HttpError ''Video not found'' 404), s2)
                | (Inr (Some video), s2) \<Rightarrow>
                    (case insert_processing_result videoId
                            (truthy_id (map_option au_id (rq_user req))) s2 of
                       (Inl e, s3) \<Rightarrow> (Inl e, s3)
                     | (Inr resultId, s3) \<Rightarrow>
                         (Inr (\<lparr>psr_message = ''Processing started'',
                                 psr_processingId = resultId\<rparr>,
                               \<lparr>task_userId = map_option au_id (rq_user req),
                                task_videoId = videoId, task_resultId = resultId\<rparr>),
                          s3)))))"





subsection \<open>GET /process/:id\<close>

record 't HighlightClip =
  hl_id :: int
  hl_title :: string
  hl_duration :: 't
  hl_startTime :: 't
  hl_endTime :: 't
  hl_confidence :: 't
  hl_thumbnail :: "string option"
  hl_downloadUrl :: "string option"

record 't Thumbnail =
  tn_id :: int
  tn_timestamp :: 't
  tn_width :: "int option"
  tn_height :: "int option"
  tn_downloadUrl :: string

record Caption =
  ca_id :: int
  ca_platform :: string
  ca_content :: string
  ca_hashtags :: "string list"

record video_info =
  originalName :: string
  vi_size :: int
  vi_type :: string

record 't ProcessingResult =
  res_id :: int
  res_videoId :: int
  res_status :: string
  res_progress :: int
  res_errorMessage :: "string option"
  res_video :: video_info
  res_highlights :: "'t HighlightClip list"
  res_thumbnails :: "'t Thumbnail list"
  res_captions :: "Caption list"

text \<open>\<open>String.prototype.split\<close> with a one-character separator.\<close>

fun split :: "char \<Rightarrow> string \<Rightarrow> string list" where
  "split sep [] = [[]]"
| "split sep (x # xs) =
     (if x = sep then [] # split sep xs
      else (case split sep xs of [] \<Rightarrow> [[x]] | y # ys \<Rightarrow> (x # y) # ys))"

text \<open>The job row joined with its video:
  \<open>SELECT pr.*, v.original_filename, v.file_size, v.mime_type FROM processing_results pr
  JOIN videos v ON pr.video_id = v.id WHERE pr.id = ?\<close>.\<close>

definition select_result ::
  "int \<Rightarrow> ((job_row \<times> video_row) option, ('t, 'z) server_scheme) action" where
  "select_result processingId s =
     (case db_fault s of
        (Some m, s1) \<Rightarrow> (Inl (Error m), s1)
      | (None, s1) \<Rightarrow>
          (Inr (case processing_results s1 processingId of
                  None \<Rightarrow> None
                | Some job \<Rightarrow>
                    (case videos s1 (pr_video_id job) of
                       None \<Rightarrow> None
                     | Some video \<Rightarrow> Some (job, video))), s1))"

text \<open>The three \<open>db.all\<close> queries; \<open>ORDER BY\<close> is an ascending sort on the key.\<close>

definition select_highlights ::
  "int \<Rightarrow> ('t clip_row list, ('t::linorder, 'z) server_scheme) action" where
  "select_highlights processingId s =
     (case db_fault s of
        (Some m, s1) \<Rightarrow> (Inl (Error m), s1)
      | (None, s1) \<Rightarrow>
          (Inr (sort_key hc_start_time
                  (filter (\<lambda>h. hc_processing_result_id h = processingId) (highlight_clips s1))),
           s1))"

definition select_thumbnails ::
  "int \<Rightarrow> ('t thumbnail_row list, ('t::linorder, 'z) server_scheme) action" where
  "select_thumbnails processingId s =
     (case db_fault s of
        (Some m, s1) \<Rightarrow> (Inl (Error m), s1)
      | (None, s1) \<Rightarrow>
          (Inr (sort_key th_timestamp
                  (filter (\<lambda>t. th_processing_result_id t = processingId) (thumbnails s1))),
           s1))"

definition select_captions ::
  "int \<Rightarrow> (caption_row list, ('t, 'z) server_scheme) action" where
  "select_captions processingId s =
     (case db_fault s of
        (Some m, s1) \<Rightarrow> (Inl (Error m), s1)
      | (None, s1) \<Rightarrow>
          (Inr (filter (\<lambda>c. cp_processing_result_id c = processingId) (captions s1)), s1))"

definition highlight_json :: "'t clip_row \<Rightarrow> 't HighlightClip" where
  "highlight_json h =
     \<lparr>hl_id = hc_id h, hl_title = hc_title h, hl_duration = hc_duration h,
      hl_startTime = hc_start_time h, hl_endTime = hc_end_time h,
      hl_confidence = hc_confidence_score h, hl_thumbnail = hc_thumbnail_path h,
      hl_downloadUrl = (if hc_file_path h \<noteq> [] then Some (''/api/download/clip/'' @ show_int (hc_id h))
                        else None)\<rparr>"

definition thumbnail_json :: "'t thumbnail_row \<Rightarrow> 't Thumbnail" where
  "thumbnail_json t =
     \<lparr>tn_id = th_id t, tn_timestamp = th_timestamp t, tn_width = th_width t,
      tn_height = th_height t,
      tn_downloadUrl = ''/api/download/thumbnail/'' @ show_int (th_id t)\<rparr>"

definition caption_json :: "caption_row \<Rightarrow> Caption" where
  "caption_json c =
     \<lparr>ca_id = cp_id c, ca_platform = cp_platform c, ca_content = cp_content c,
      ca_hashtags = (case cp_hashtags c of None \<Rightarrow> [] | Some h \<Rightarrow> split CHR '','' h)\<rparr>"

text \<open>The artifact queries of the handler, run only for a completed job; the three
  arrays start empty.\<close>

definition load_artifacts ::
  "int \<Rightarrow> string
     \<Rightarrow> ('t clip_row list \<times> 't thumbnail_row list \<times> caption_row list,
         ('t::linorder, 'z) server_scheme) action" where
  "load_artifacts processingId status s =
     (if status = ''completed''
      then
        (case select_highlights processingId s of
           (Inl e, s1) \<Rightarrow> (Inl e, s1)
         | (Inr highlights, s1) \<Rightarrow>
             (case select_thumbnails processingId s1 of
                (Inl e, s2) \<Rightarrow> (Inl e, s2)
              | (Inr thumbs, s2) \<Rightarrow>
                  (case select_captions processingId s2 of
                     (Inl e, s3) \<Rightarrow> (Inl e, s3)
                   | (Inr caps, s3) \<Rightarrow> (Inr (highlights, thumbs, caps), s3))))
      else (Inr ([], [], []), s))"

text \<open>The access test of the handler:
  \<open>result.user_id && (!req.user || req.user.id !== result.user_id)\<close>.\<close>

definition access_denied :: "request \<Rightarrow> job_row \<Rightarrow> bool" where
  "access_denied req job =
     (case truthy_id (pr_user_id job) of
        None \<Rightarrow> False
      | Some owner \<Rightarrow> (case rq_user req of None \<Rightarrow> True | Some u \<Rightarrow> au_id u \<noteq> owner))"

text \<open>\<open>GET /process/:id\<close>.\<close>

definition process_status ::
  "request \<Rightarrow> ('t ProcessingResult, ('t::linorder, 'z) server_scheme) action" where
  "process_status req s =
     (case rq_id req of
        None \<Rightarrow> (Inl (HttpError ''Invalid processing ID'' 400), s)
      | Some processingId \<Rightarrow>
          (case select_result processingId s of
             (Inl e, s1) \<Rightarrow> (Inl e, s1)
           | (Inr None, s1) \<Rightarrow> (Inl (HttpError ''Processing result not found'' 404), s1)
           | (Inr (Some (job, video)), s1) \<Rightarrow>
               if access_denied req job
               then (Inl (HttpError ''Access denied'' 403), s1)
               else
                 (case load_artifacts processingId (pr_status job) s1 of
                    (Inl e, s2) \<Rightarrow> (Inl e, s2)
                  | (Inr (highlights, thumbs, caps), s2) \<Rightarrow>
                      (Inr \<lparr>res_id = processingId, res_videoId = pr_video_id job,
                            res_status = pr_status job, res_progress = pr_progress job,
                            res_errorMessage = pr_error_message job,
                            res_video = \<lparr>originalName = v_original_filename video,
                                          vi_size = v_file_size video,
                                          vi_type = v_mime_type video\<rparr>,
                            res_highlights = map highlight_json highlights,
                            res_thumbnails = map thumbnail_json thumbs,
                            res_captions = map caption_json caps\<rparr>, s2))))"


section \<open>Two deductions in flight\<close>

text \<open>
  The server is one thread; an \<open>async\<close> function gives way only where it awaits a
  statement sent to the store, and each statement runs atomically. A call of
  \<open>deductCredits(userId)\<close> is therefore a sequence of at most three atomic steps: the
  \<open>SELECT\<close> of \<open>checkCredits\<close>, the downgrade \<open>UPDATE\<close> when the subscription has run
  out, and the conditional \<open>UPDATE\<close> of the balance. \<open>deduct_pc\<close> says where a call
  stands; \<open>AtDowngrade\<close> holds the \<open>userData\<close> read earlier, which may be stale by
  the time the call resumes.
\<close>

datatype deduct_pc = AtSelect | AtDowngrade User | AtUpdate | Finished "error + unit"

text \<open>What \<open>deductCredits\<close> does with the result of the check, up to its next
  statement.\<close>

definition after_check ::
  "int \<Rightarrow> CreditCheckResult \<Rightarrow> 'a world_scheme \<Rightarrow> deduct_pc \<times> 'a world_scheme" where
  "after_check userId creditCheck w =
     (if \<not> canProceed creditCheck
      then (Finished (Inl (HttpError (or_default (reason creditCheck)
                                         ''Cannot deduct credits'') 402)), w)
      else if (case user creditCheck of None \<Rightarrow> False | Some u \<Rightarrow> isSubscribed u)
      then (Finished (Inr ()),
            console_out
              (ConsoleLog (''User '' @ show_int userId @ '' is subscribed - no credit deduction''))
              w)
      else (AtUpdate, w))"

definition deduct_step ::
  "int \<Rightarrow> deduct_pc \<Rightarrow> 'a world_scheme \<Rightarrow> deduct_pc \<times> 'a world_scheme" where
  "deduct_step userId pc w =
     (case pc of
        AtSelect \<Rightarrow>
          if userId = 0
          then after_check userId
                 \<lparr>canProceed = False, user = None, reason = Some ''Authentication required''\<rparr> w
          else
            (case select_user userId w of
               (Inl e, w1) \<Rightarrow> (Finished (Inl e), w1)
             | (Inr None, w1) \<Rightarrow>
                 after_check userId
                   \<lparr>canProceed = False, user = None, reason = Some ''User not found''\<rparr> w1
             | (Inr (Some row), w1) \<Rightarrow>
                 (let userData = user_of userId row
                  in case (if isSubscribed userData then subscriptionExpiresAt userData
                           else None) of
                       Some expirationDate \<Rightarrow>
                         if expirationDate > clock w1
                         then after_check userId
                                \<lparr>canProceed = True, user = Some userData, reason = None\<rparr> w1
                         else (AtDowngrade userData, w1)
                     | None \<Rightarrow> after_check userId (balance_check userData) w1))
      | AtDowngrade userData \<Rightarrow>
          (case updateSubscriptionStatus userId False None w of
             (Inl e, w1) \<Rightarrow> (Finished (Inl e), w1)
           | (Inr _, w1) \<Rightarrow>
               after_check userId
                 (balance_check (userData\<lparr>isSubscribed := False,
                                          subscriptionExpiresAt := None\<rparr>)) w1)
      | AtUpdate \<Rightarrow> (case deduct_update userId w of (r, w1) \<Rightarrow> (Finished r, w1))
      | Finished r \<Rightarrow> (Finished r, w))"

text \<open>One call run alone: three steps always reach \<open>Finished\<close>.\<close>

definition deduct_alone :: "int \<Rightarrow> 'a world_scheme \<Rightarrow> deduct_pc \<times> 'a world_scheme" where
  "deduct_alone userId w =
     (case deduct_step userId AtSelect w of
        (p1, w1) \<Rightarrow> (case deduct_step userId p1 w1 of (p2, w2) \<Rightarrow> deduct_step userId p2 w2))"

text \<open>
  Two calls for the same user, both started, sharing the store. A schedule says, step
  by step, which of the two runs its next statement (\<open>True\<close>: the first call); a turn
  given to a finished call does nothing.
\<close>

fun interleave ::
  "bool list \<Rightarrow> int \<Rightarrow> deduct_pc \<times> deduct_pc \<times> 'a world_scheme
     \<Rightarrow> deduct_pc \<times> deduct_pc \<times> 'a world_scheme" where
  "interleave [] userId cfg = cfg"
| "interleave (first # sched) userId (a, b, w) =
     (if first
      then (case deduct_step userId a w of (a', w') \<Rightarrow> interleave sched userId (a', b, w'))
      else (case deduct_step userId b w of (b', w') \<Rightarrow> interleave sched userId (a, b', w')))"

text \<open>The two ways a deduction reports that there is nothing to spend: the refusal of
  the embedded check, and the conditional update that touched no row.\<close>

definition insufficient :: "deduct_pc \<Rightarrow> bool" where
  "insufficient pc =
     (pc = Finished (Inl (HttpError ''Insufficient credits'' 402))
      \<or> pc = Finished (Inl (Error ''Failed to deduct credit - insufficient credits'')))"


text \<open>
  The invariant of two racing calls for a user who has one credit and no subscription
  in force: while the credit is there both calls are still on their way, and once it
  is gone exactly one call has succeeded and the other is on its way or has reported
  that nothing is left. \<open>step_rank\<close> measures how far a call has come.
\<close>

definition step_rank :: "deduct_pc \<Rightarrow> nat" where
  "step_rank pc =
     (case pc of AtSelect \<Rightarrow> 0 | AtDowngrade _ \<Rightarrow> 1 | AtUpdate \<Rightarrow> 2 | Finished _ \<Rightarrow> 3)"

definition on_the_way :: "int \<Rightarrow> deduct_pc \<Rightarrow> bool" where
  "on_the_way c pc =
     (pc = AtSelect \<or> pc = AtUpdate \<or> (\<exists>u. pc = AtDowngrade u \<and> (c = 1 \<longrightarrow> credits u = 1)))"

definition race_inv :: "int \<Rightarrow> deduct_pc \<times> deduct_pc \<times> 'a world_scheme \<Rightarrow> bool" where
  "race_inv userId cfg =
     (case cfg of
        (a, b, w) \<Rightarrow>
          faults w = [] \<and> userId \<noteq> 0
          \<and> (\<exists>row. users w userId = Some row \<and> \<not> in_force (clock w) row
                \<and> (row_credits row = 1 \<and> on_the_way 1 a \<and> on_the_way 1 b
                    \<or> row_credits row = 0
                      \<and> (a = Finished (Inr ()) \<and> (on_the_way 0 b \<or> insufficient b)
                          \<or> b = Finished (Inr ()) \<and> (on_the_way 0 a \<or> insufficient a)))))"


section \<open>Example data\<close>

text \<open>Concrete tables for the worked examples: user 1 has three credits, user 2 none,
  user 3 is subscribed until instant 100 with no credits, user 4 has the flag set and no
  expiry stored, user 5 is subscribed until instant 100 and has one credit, user 6 is
  not subscribed and has one credit.\<close>

definition example_users :: "int \<rightharpoonup> user_row" where
  "example_users =
     [1 \<mapsto> \<lparr>row_credits = 3, row_is_subscribed = 0, row_subscription_expires_at = None\<rparr>,
      2 \<mapsto> \<lparr>row_credits = 0, row_is_subscribed = 0, row_subscription_expires_at = None\<rparr>,
      3 \<mapsto> \<lparr>row_credits = 0, row_is_subscribed = 1, row_subscription_expires_at = Some 100\<rparr>,
      4 \<mapsto> \<lparr>row_credits = 0, row_is_subscribed = 1, row_subscription_expires_at = None\<rparr>,
      5 \<mapsto> \<lparr>row_credits = 1, row_is_subscribed = 1, row_subscription_expires_at = Some 100\<rparr>,
      6 \<mapsto> \<lparr>row_credits = 1, row_is_subscribed = 0, row_subscription_expires_at = None\<rparr>]"

definition example_world :: "int \<Rightarrow> string option list \<Rightarrow> world" where
  "example_world now fs = \<lparr>users = example_users, clock = now, faults = fs, console = []\<rparr>"


text \<open>An operation that throws, and one that returns a value; neither touches the
  tables.\<close>

definition failing_operation :: "(nat, world) action" where
  "failing_operation w = (Inl (Error ''upstream unavailable''), w)"

definition succeeding_operation :: "(nat, world) action" where
  "succeeding_operation w = (Inr 42, w)"


text \<open>An operation that takes until instant 150 and then throws.\<close>

definition slow_failing_operation :: "(nat, world) action" where
  "slow_failing_operation w = (Inl (Error ''upstream unavailable''), w\<lparr>clock := 150\<rparr>)"







text \<open>
  A server state for the worked examples, with times as natural numbers. Video 10
  exists. Job 1 is still \<open>processing\<close> although a clip row and a caption row for it
  are already stored; job 2 is \<open>completed\<close>, with two clips and two thumbnails stored
  out of time order.
\<close>

definition example_server :: "nat server" where
  "example_server =
     \<lparr>users = example_users, clock = 50, faults = [], console = [],
      videos = [10 \<mapsto> \<lparr>v_original_filename = ''talk.mp4'', v_file_path = ''videos/talk.mp4'',
                         v_file_size = 1000, v_mime_type = ''video/mp4''\<rparr>],
      processing_results =
        [1 \<mapsto> \<lparr>pr_video_id = 10, pr_user_id = None, pr_status = ''processing'',
                 pr_progress = 0, pr_error_message = None\<rparr>,
         2 \<mapsto> \<lparr>pr_video_id = 10, pr_user_id = None, pr_status = ''completed'',
                 pr_progress = 100, pr_error_message = None\<rparr>],
      results_seq = 2,
      highlight_clips =
        [\<lparr>hc_id = 1, hc_processing_result_id = 1, hc_title = ''Stray'', hc_file_path = ''clips/a.mp4'',
          hc_thumbnail_path = None, hc_duration = 30, hc_start_time = 5, hc_end_time = 35,
          hc_confidence_score = 1\<rparr>,
         \<lparr>hc_id = 2, hc_processing_result_id = 2, hc_title = ''Main'', hc_file_path = ''clips/b.mp4'',
          hc_thumbnail_path = None, hc_duration = 45, hc_start_time = 60, hc_end_time = 105,
          hc_confidence_score = 1\<rparr>,
         \<lparr>hc_id = 3, hc_processing_result_id = 2, hc_title = ''Opening'', hc_file_path = [],
          hc_thumbnail_path = None, hc_duration = 30, hc_start_time = 5, hc_end_time = 35,
          hc_confidence_score = 1\<rparr>],
      thumbnails =
        [\<lparr>th_id = 1, th_processing_result_id = 2, th_file_path = ''thumbnails/a.jpg'',
          th_timestamp = 85, th_width = Some 1920, th_height = Some 1080\<rparr>,
         \<lparr>th_id = 2, th_processing_result_id = 2, th_file_path = ''thumbnails/b.jpg'',
          th_timestamp = 20, th_width = Some 1920, th_height = Some 1080\<rparr>],
      captions =
        [\<lparr>cp_id = 1, cp_processing_result_id = 1, cp_platform = ''youtube'', cp_content = ''x'',
          cp_hashtags = None\<rparr>,
         \<lparr>cp_id = 2, cp_processing_result_id = 2, cp_platform = ''tiktok'', cp_content = ''y'',
          cp_hashtags = Some ''a,b''\<rparr>]\<rparr>"





definition example_request :: "int \<Rightarrow> int option \<Rightarrow> request" where
  "example_request i uid =
     \<lparr>rq_id = Some i,
      rq_user = map_option (\<lambda>u. \<lparr>au_id = u, au_email = ''user@example.org''\<rparr>) uid\<rparr>"


section \<open>The credit check\<close>

lemma db_fault_nil: "faults w = [] \<Longrightarrow> db_fault w = (None, w)"
  by (simp add: db_fault_def)

text \<open>
  Claim C5. In a run in which the store answers its statements, \<open>checkCredits\<close> is this
  case analysis: a missing user id (\<open>undefined\<close> or \<open>0\<close>) is refused with
  \<open>Authentication required\<close>; an id with no row is refused with \<open>User not found\<close>; a
  row with the flag set and an expiry later than the clock may proceed whatever its
  balance; a row with the flag set and an expiry not later than the clock is written
  back with the flag cleared and the expiry removed, and is then judged on its balance;
  a non-subscriber with \<open>credits \<le> 0\<close> is refused with \<open>Insufficient credits\<close>; every
  other row may proceed. Apart from the downgrade, the state is left as it was. (The
  reason strings are the code's, capitalised.)
\<close>

theorem checkCredits_case_analysis:
  "(userId = None \<or> userId = Some 0 \<longrightarrow>
      checkCredits userId w =
        (Inr \<lparr>canProceed = False, user = None, reason = Some ''Authentication required''\<rparr>, w))
   \<and> (faults w = [] \<and> uid \<noteq> 0 \<and> users w uid = None \<longrightarrow>
      checkCredits (Some uid) w =
        (Inr \<lparr>canProceed = False, user = None, reason = Some ''User not found''\<rparr>, w))
   \<and> (faults w = [] \<and> uid \<noteq> 0 \<and> users w uid = Some r \<and> row_is_subscribed r = 1
        \<and> row_subscription_expires_at r = Some t \<and> t > clock w \<longrightarrow>
      checkCredits (Some uid) w =
        (Inr \<lparr>canProceed = True, user = Some (user_of uid r), reason = None\<rparr>, w))
   \<and> (faults w = [] \<and> uid \<noteq> 0 \<and> users w uid = Some r \<and> row_is_subscribed r = 1
        \<and> row_subscription_expires_at r = Some t \<and> \<not> t > clock w \<longrightarrow>
      (let u = (user_of uid r)\<lparr>isSubscribed := False, subscriptionExpiresAt := None\<rparr>;
           (res, w') = checkCredits (Some uid) w
       in users w' = (users w)(uid \<mapsto> r\<lparr>row_is_subscribed := 0,
                                           row_subscription_expires_at := None\<rparr>)
          \<and> res = Inr (if credits u \<le> 0
                        then \<lparr>canProceed = False, user = Some u,
                              reason = Some ''Insufficient credits''\<rparr>
                        else \<lparr>canProceed = True, user = Some u, reason = None\<rparr>)))
   \<and> (faults w = [] \<and> uid \<noteq> 0 \<and> users w uid = Some r \<and> row_is_subscribed r \<noteq> 1
        \<and> row_credits r \<le> 0 \<longrightarrow>
      checkCredits (Some uid) w =
        (Inr \<lparr>canProceed = False, user = Some (user_of uid r),
              reason = Some ''Insufficient credits''\<rparr>, w))
   \<and> (faults w = [] \<and> uid \<noteq> 0 \<and> users w uid = Some r
        \<and> (row_is_subscribed r \<noteq> 1 \<and> row_credits r > 0
            \<or> row_is_subscribed r = 1 \<and> row_subscription_expires_at r = None) \<longrightarrow>
      checkCredits (Some uid) w =
        (Inr \<lparr>canProceed = True, user = Some (user_of uid r), reason = None\<rparr>, w))"
  by (auto simp: checkCredits_def select_user_def db_fault_nil updateSubscriptionStatus_def
        console_out_def balance_check_def user_of_def Let_def
      split: option.splits prod.splits sum.splits)

theorem checkCredits_case_analysis_witness:
  "checkCredits None (example_world 50 []) =
     (Inr \<lparr>canProceed = False, user = None, reason = Some ''Authentication required''\<rparr>,
      example_world 50 [])
   \<and> checkCredits (Some 9) (example_world 50 []) =
     (Inr \<lparr>canProceed = False, user = None, reason = Some ''User not found''\<rparr>,
      example_world 50 [])
   \<and> checkCredits (Some 3) (example_world 50 []) =
     (Inr \<lparr>canProceed = True,
           user = Some \<lparr>ident = 3, credits = 0, isSubscribed = True,
                        subscriptionExpiresAt = Some 100\<rparr>,
           reason = None\<rparr>,
      example_world 50 [])
   \<and> fst (checkCredits (Some 3) (example_world 100 [])) =
     Inr \<lparr>canProceed = False,
          user = Some \<lparr>ident = 3, credits = 0, isSubscribed = False,
                       subscriptionExpiresAt = None\<rparr>,
          reason = Some ''Insufficient credits''\<rparr>
   \<and> users (snd (checkCredits (Some 3) (example_world 100 []))) 3 =
     Some \<lparr>row_credits = 0, row_is_subscribed = 0, row_subscription_expires_at = None\<rparr>
   \<and> checkCredits (Some 2) (example_world 50 []) =
     (Inr \<lparr>canProceed = False,
           user = Some \<lparr>ident = 2, credits = 0, isSubscribed = False,
                        subscriptionExpiresAt = None\<rparr>,
           reason = Some ''Insufficient credits''\<rparr>,
      example_world 50 [])
   \<and> checkCredits (Some 1) (example_world 50 []) =
     (Inr \<lparr>canProceed = True,
           user = Some \<lparr>ident = 1, credits = 3, isSubscribed = False,
                        subscriptionExpiresAt = None\<rparr>,
           reason = None\<rparr>,
      example_world 50 [])"
  using checkCredits_case_analysis [of None "example_world 50 []" 9 undefined 0]
    checkCredits_case_analysis
      [of None "example_world 50 []" 3
          "\<lparr>row_credits = 0, row_is_subscribed = 1, row_subscription_expires_at = Some 100\<rparr>"
          100]
    checkCredits_case_analysis
      [of None "example_world 100 []" 3
          "\<lparr>row_credits = 0, row_is_subscribed = 1, row_subscription_expires_at = Some 100\<rparr>"
          100]
    checkCredits_case_analysis
      [of None "example_world 50 []" 2
          "\<lparr>row_credits = 0, row_is_subscribed = 0, row_subscription_expires_at = None\<rparr>" 0]
    checkCredits_case_analysis
      [of None "example_world 50 []" 1
          "\<lparr>row_credits = 3, row_is_subscribed = 0, row_subscription_expires_at = None\<rparr>" 0]
  by (simp add: example_world_def example_users_def user_of_def Let_def split: prod.splits)


section \<open>Refunds\<close>

lemma checkCredits_credits:
  "checkCredits userId w = (res, w') \<Longrightarrow>
     map_option row_credits (users w' u) = map_option row_credits (users w u)"
  by (auto simp: checkCredits_def select_user_def db_fault_def updateSubscriptionStatus_def
        console_out_def Let_def
      split: option.splits prod.splits sum.splits list.splits if_splits)

lemma checkCredits_active:
  "users w uid = Some r \<Longrightarrow> row_is_subscribed r = 1 \<Longrightarrow>
   (case row_subscription_expires_at r of None \<Rightarrow> True | Some t \<Rightarrow> t > clock w) \<Longrightarrow>
   checkCredits (Some uid) w = (res, w') \<Longrightarrow>
     users w' = users w \<and>
     (case res of Inl e \<Rightarrow> True
      | Inr c \<Rightarrow> user c = None \<or> canProceed c \<and> user c = Some (user_of uid r))"
  by (auto simp: checkCredits_def select_user_def db_fault_def balance_check_def user_of_def
        Let_def
      split: option.splits prod.splits sum.splits list.splits if_splits)

lemma checkCredits_missing:
  "uid = 0 \<or> users w uid = None \<Longrightarrow> checkCredits (Some uid) w = (res, w') \<Longrightarrow>
     users w' = users w \<and> (case res of Inl e \<Rightarrow> True | Inr c \<Rightarrow> user c = None)"
  by (auto simp: checkCredits_def select_user_def db_fault_def
      split: option.splits prod.splits sum.splits list.splits if_splits)

lemma refundCredits_effect:
  "faults w = [] \<Longrightarrow> userId \<noteq> 0 \<Longrightarrow> users w userId = Some r \<Longrightarrow> row_is_subscribed r \<noteq> 1 \<Longrightarrow>
     users (snd (refundCredits userId w))
       = (users w)(userId \<mapsto> r\<lparr>row_credits := row_credits r + 1\<rparr>)"
  by (auto simp: refundCredits_def refund_body_def getUserCredits_def refund_update_def
        checkCredits_def select_user_def balance_check_def user_of_def Let_def
        db_fault_def console_out_def
      split: option.splits prod.splits sum.splits)

text \<open>
  Claim C6. Whatever the store does (every fault schedule), \<open>refundCredits\<close> returns
  normally; an exception inside its body is caught and written to the console with
  \<open>console.error\<close>. Every balance is left as it was or, for the user refunded, raised
  by exactly one; a stored non-subscriber is raised by one when the store answers; the
  table is untouched for a subscriber in force (flag set, expiry absent or later than
  the clock) and for an id that is missing or has no row. A row whose expiry has passed
  counts as a non-subscriber: the embedded check clears its flag before the refund.
\<close>

theorem refundCredits_never_throws:
  "(\<exists>w'. refundCredits userId w = (Inr (), w'))
   \<and> (\<forall>e w1. refund_body userId w = (Inl e, w1) \<longrightarrow>
         refundCredits userId w =
           (Inr (),
            console_out
              (ConsoleError (''Failed to refund credits for user '' @ show_int userId @ '':'') e)
              w1))
   \<and> (\<forall>u. map_option row_credits (users (snd (refundCredits userId w)) u)
              = map_option row_credits (users w u)
          \<or> u = userId
             \<and> map_option row_credits (users (snd (refundCredits userId w)) u)
               = map_option (\<lambda>c. c + 1) (map_option row_credits (users w u)))
   \<and> (faults w = [] \<and> userId \<noteq> 0 \<and> users w userId = Some r \<and> row_is_subscribed r \<noteq> 1 \<longrightarrow>
         users (snd (refundCredits userId w))
           = (users w)(userId \<mapsto> r\<lparr>row_credits := row_credits r + 1\<rparr>))
   \<and> (users w userId = Some r \<and> in_force (clock w) r \<longrightarrow>
         users (snd (refundCredits userId w)) = users w)
   \<and> (userId = 0 \<or> users w userId = None \<longrightarrow>
         users (snd (refundCredits userId w)) = users w)"
proof (intro conjI allI impI)
  show "\<exists>w'. refundCredits userId w = (Inr (), w')"
    by (simp add: refundCredits_def split: prod.splits sum.splits)
next
  fix e w1 assume "refund_body userId w = (Inl e, w1)"
  then show "refundCredits userId w =
      (Inr (),
       console_out
         (ConsoleError (''Failed to refund credits for user '' @ show_int userId @ '':'') e) w1)"
    by (simp add: refundCredits_def)
next
  fix u
  obtain res w1 where c: "checkCredits (Some userId) w = (res, w1)"
    by (cases "checkCredits (Some userId) w")
  from checkCredits_credits [OF c, of u]
  show "map_option row_credits (users (snd (refundCredits userId w)) u)
          = map_option row_credits (users w u)
        \<or> u = userId
           \<and> map_option row_credits (users (snd (refundCredits userId w)) u)
             = map_option (\<lambda>c. c + 1) (map_option row_credits (users w u))"
    using c
    by (cases "users w u")
       (auto simp: refundCredits_def refund_body_def getUserCredits_def refund_update_def
          db_fault_def console_out_def
        split: option.splits prod.splits sum.splits list.splits if_splits)
next
  assume "faults w = [] \<and> userId \<noteq> 0 \<and> users w userId = Some r \<and> row_is_subscribed r \<noteq> 1"
  then show "users (snd (refundCredits userId w))
      = (users w)(userId \<mapsto> r\<lparr>row_credits := row_credits r + 1\<rparr>)"
    by (simp add: refundCredits_effect)
next
  assume a0: "users w userId = Some r \<and> in_force (clock w) r"
  then have a: "users w userId = Some r \<and> row_is_subscribed r = 1
        \<and> (case row_subscription_expires_at r of None \<Rightarrow> True | Some t \<Rightarrow> t > clock w)"
    by (simp add: in_force_def)
  obtain res w1 where c: "checkCredits (Some userId) w = (res, w1)"
    by (cases "checkCredits (Some userId) w")
  from a have "users w1 = users w \<and>
     (case res of Inl e \<Rightarrow> True
      | Inr c \<Rightarrow> user c = None \<or> canProceed c \<and> user c = Some (user_of userId r))"
    using checkCredits_active [OF _ _ _ c] by blast
  with a c show "users (snd (refundCredits userId w)) = users w"
    by (auto simp: refundCredits_def refund_body_def getUserCredits_def user_of_def
          console_out_def
        split: option.splits prod.splits sum.splits)
next
  assume a: "userId = 0 \<or> users w userId = None"
  obtain res w1 where c: "checkCredits (Some userId) w = (res, w1)"
    by (cases "checkCredits (Some userId) w")
  from checkCredits_missing [OF a c] c
  show "users (snd (refundCredits userId w)) = users w"
    by (auto simp: refundCredits_def refund_body_def getUserCredits_def console_out_def
        split: option.splits prod.splits sum.splits)
qed

theorem refundCredits_never_throws_witness:
  "fst (refundCredits 1 (example_world 50 [Some ''SQLITE_BUSY''])) = Inr ()
   \<and> console (snd (refundCredits 1 (example_world 50 [Some ''SQLITE_BUSY''])))
     = [ConsoleError ''Failed to refund credits for user 1:'' (Error ''SQLITE_BUSY'')]
   \<and> users (snd (refundCredits 1 (example_world 50 [Some ''SQLITE_BUSY'']))) = example_users
   \<and> users (snd (refundCredits 1 (example_world 50 []))) 1
     = Some \<lparr>row_credits = 4, row_is_subscribed = 0, row_subscription_expires_at = None\<rparr>
   \<and> users (snd (refundCredits 3 (example_world 50 []))) = example_users
   \<and> users (snd (refundCredits 9 (example_world 50 []))) = example_users"
proof -
  have b: "refund_body 1 (example_world 50 [Some ''SQLITE_BUSY''])
             = (Inl (Error ''SQLITE_BUSY''), example_world 50 [])"
    by (simp add: refund_body_def getUserCredits_def checkCredits_def select_user_def
          db_fault_def example_world_def)
  have s: "show_int 1 = ''1''"
    by code_simp
  note t1 = refundCredits_never_throws
      [of 1 "example_world 50 [Some ''SQLITE_BUSY'']" undefined]
  note t2 = refundCredits_never_throws
      [of 1 "example_world 50 []"
          "\<lparr>row_credits = 3, row_is_subscribed = 0, row_subscription_expires_at = None\<rparr>"]
  note t3 = refundCredits_never_throws
      [of 3 "example_world 50 []"
          "\<lparr>row_credits = 0, row_is_subscribed = 1, row_subscription_expires_at = Some 100\<rparr>"]
  note t4 = refundCredits_never_throws [of 9 "example_world 50 []" undefined]
  from t1 b s have
    "fst (refundCredits 1 (example_world 50 [Some ''SQLITE_BUSY''])) = Inr ()
     \<and> console (snd (refundCredits 1 (example_world 50 [Some ''SQLITE_BUSY''])))
       = [ConsoleError ''Failed to refund credits for user 1:'' (Error ''SQLITE_BUSY'')]
     \<and> users (snd (refundCredits 1 (example_world 50 [Some ''SQLITE_BUSY'']))) = example_users"
    by (simp add: console_out_def example_world_def)
  moreover from t2 have "users (snd (refundCredits 1 (example_world 50 []))) 1
     = Some \<lparr>row_credits = 4, row_is_subscribed = 0, row_subscription_expires_at = None\<rparr>"
    by (simp add: example_world_def example_users_def)
  moreover from t3 have "users (snd (refundCredits 3 (example_world 50 []))) = example_users"
    by (simp add: example_world_def example_users_def in_force_def)
  moreover from t4 have "users (snd (refundCredits 9 (example_world 50 []))) = example_users"
    by (simp add: example_world_def example_users_def)
  ultimately show ?thesis by blast
qed


section \<open>Deduction\<close>

lemma deduct_update_credits:
  "deduct_update userId w = (res, w') \<Longrightarrow>
     map_option row_credits (users w' v) = map_option row_credits (users w v)
     \<or> v = userId \<and> res = Inr ()
        \<and> (\<exists>r. users w v = Some r \<and> 0 < row_credits r
                 \<and> users w' = (users w)(v \<mapsto> r\<lparr>row_credits := row_credits r - 1\<rparr>))"
  by (auto simp: deduct_update_def db_fault_def console_out_def
      split: option.splits prod.splits list.splits if_splits)

lemma deduct_user_credits:
  "deduct_user userId userInfo w = (res, w') \<Longrightarrow>
     map_option row_credits (users w' v) = map_option row_credits (users w v)"
  by (auto simp: deduct_user_def dest: checkCredits_credits
      split: option.splits prod.splits sum.splits if_splits)

lemma deductCredits_credits:
  assumes "deductCredits userId userInfo w = (res, w')"
  shows "map_option row_credits (users w' v) = map_option row_credits (users w v)
     \<or> v = userId \<and> res = Inr ()
        \<and> (\<exists>r. users w v = Some r \<and> 0 < row_credits r
                 \<and> map_option row_credits (users w' v) = Some (row_credits r - 1))"
proof -
  obtain ru w1 where d: "deduct_user userId userInfo w = (ru, w1)"
    by (cases "deduct_user userId userInfo w")
  note c1 = deduct_user_credits [OF d, of v]
  show ?thesis
  proof (cases ru)
    case (Inl e)
    with assms d c1 show ?thesis by (simp add: deductCredits_def)
  next
    case (Inr u)
    show ?thesis
    proof (cases "case u of None \<Rightarrow> False | Some u' \<Rightarrow> isSubscribed u'")
      case True
      with assms d c1 Inr show ?thesis
        by (auto simp: deductCredits_def console_out_def)
    next
      case False
      with assms d Inr have u: "deduct_update userId w1 = (res, w')"
        by (simp add: deductCredits_def)
      from deduct_update_credits [OF u, of v] c1 show ?thesis
        by (cases "users w v") auto
    qed
  qed
qed

lemma checkCredits_non_subscriber:
  "users w uid = Some r \<Longrightarrow> row_is_subscribed r \<noteq> 1 \<Longrightarrow>
   checkCredits (Some uid) w = (res, w1) \<Longrightarrow>
     users w1 = users w \<and>
     (case res of Inl e \<Rightarrow> True
      | Inr c \<Rightarrow> canProceed c \<longrightarrow> user c = Some (user_of uid r))"
  by (auto simp: checkCredits_def select_user_def db_fault_def balance_check_def user_of_def
        Let_def
      split: option.splits prod.splits sum.splits list.splits if_splits)

lemma deduct_update_success:
  "deduct_update userId w = (Inr (), w') \<Longrightarrow>
     \<exists>r. users w userId = Some r \<and> 0 < row_credits r
         \<and> users w' = (users w)(userId \<mapsto> r\<lparr>row_credits := row_credits r - 1\<rparr>)"
  by (auto simp: deduct_update_def db_fault_def console_out_def
      split: option.splits prod.splits list.splits if_splits)

lemma deductCredits_non_subscriber_success:
  assumes "users w userId = Some r" and "row_is_subscribed r \<noteq> 1"
    and "deductCredits userId None w = (Inr (), w1)"
  shows "users w1 = (users w)(userId \<mapsto> r\<lparr>row_credits := row_credits r - 1\<rparr>)"
proof -
  obtain rc w0 where c: "checkCredits (Some userId) w = (rc, w0)"
    by (cases "checkCredits (Some userId) w")
  note n = checkCredits_non_subscriber [OF assms(1,2) c]
  show ?thesis
  proof (cases rc)
    case (Inl e)
    with assms(3) c show ?thesis
      by (simp add: deductCredits_def deduct_user_def)
  next
    case (Inr cc)
    show ?thesis
    proof (cases "canProceed cc")
      case False
      with assms(3) c Inr show ?thesis
        by (simp add: deductCredits_def deduct_user_def)
    next
      case True
      with n Inr have u: "user cc = Some (user_of userId r)" by simp
      with assms(2,3) c Inr True have "deduct_update userId w0 = (Inr (), w1)"
        by (simp add: deductCredits_def deduct_user_def user_of_def)
      from deduct_update_success [OF this] n assms(1) show ?thesis by auto
    qed
  qed
qed

text \<open>
  Claim C3, as the code has it. \<open>deductCredits\<close> leaves the whole table alone when the
  pre-fetched \<open>userInfo\<close> says \<open>isSubscribed\<close>, and when the stored row is a subscriber in
  force (flag set, expiry absent or later than the clock). A stored non-subscriber with
  a positive balance is written back with exactly one credit less; with \<open>credits \<le> 0\<close>
  the embedded check refuses with \<open>HttpError('Insufficient credits', 402)\<close>. When the
  check is skipped (a non-subscribed \<open>userInfo\<close> is supplied), the outcome is decided by
  the conditional update alone: it writes only if the stored balance is positive at
  that moment, and zero affected rows give
  \<open>Error('Failed to deduct credit - insufficient credits')\<close>. For every store behaviour
  and every input, each balance is either unchanged or, for the user charged, lowered
  by one from a positive value; hence if all balances are \<open>\<ge> 0\<close> before they are
  \<open>\<ge> 0\<close> after. A row whose flag is set but whose expiry has passed is not exempt: the
  check clears its flag and it is charged like a non-subscriber.
\<close>

theorem deductCredits_contract:
  "(userInfo = Some u \<and> isSubscribed u \<longrightarrow>
      fst (deductCredits userId userInfo w) = Inr ()
      \<and> users (snd (deductCredits userId userInfo w)) = users w)
   \<and> (users w userId = Some r \<and> in_force (clock w) r \<longrightarrow>
      users (snd (deductCredits userId None w)) = users w)
   \<and> (faults w = [] \<and> userId \<noteq> 0 \<and> users w userId = Some r \<and> row_is_subscribed r \<noteq> 1
       \<and> row_credits r > 0 \<longrightarrow>
      fst (deductCredits userId None w) = Inr ()
      \<and> users (snd (deductCredits userId None w))
        = (users w)(userId \<mapsto> r\<lparr>row_credits := row_credits r - 1\<rparr>))
   \<and> (faults w = [] \<and> userId \<noteq> 0 \<and> users w userId = Some r \<and> row_is_subscribed r \<noteq> 1
       \<and> row_credits r \<le> 0 \<longrightarrow>
      deductCredits userId None w = (Inl (HttpError ''Insufficient credits'' 402), w))
   \<and> (userInfo = Some u \<and> \<not> isSubscribed u \<longrightarrow>
      deductCredits userId userInfo w = deduct_update userId w)
   \<and> (faults w = [] \<and> users w userId = Some r \<and> row_credits r > 0 \<longrightarrow>
      fst (deduct_update userId w) = Inr ()
      \<and> users (snd (deduct_update userId w))
        = (users w)(userId \<mapsto> r\<lparr>row_credits := row_credits r - 1\<rparr>))
   \<and> (faults w = [] \<and> (users w userId = None \<or> users w userId = Some r \<and> row_credits r \<le> 0) \<longrightarrow>
      deduct_update userId w
        = (Inl (Error ''Failed to deduct credit - insufficient credits''), w))
   \<and> (\<forall>v. map_option row_credits (users (snd (deductCredits userId userInfo w)) v)
              = map_option row_credits (users w v)
          \<or> v = userId \<and> fst (deductCredits userId userInfo w) = Inr ()
             \<and> (\<exists>r'. users w v = Some r' \<and> 0 < row_credits r'
                  \<and> map_option row_credits (users (snd (deductCredits userId userInfo w)) v)
                    = Some (row_credits r' - 1)))
   \<and> ((\<forall>v r'. users w v = Some r' \<longrightarrow> 0 \<le> row_credits r') \<longrightarrow>
       (\<forall>v r'. users (snd (deductCredits userId userInfo w)) v = Some r' \<longrightarrow> 0 \<le> row_credits r'))
   \<and> (faults w = [] \<and> userId \<noteq> 0 \<and> users w userId = Some r \<and> row_is_subscribed r = 1
       \<and> row_subscription_expires_at r = Some t \<and> \<not> t > clock w \<and> row_credits r > 0 \<longrightarrow>
      fst (deductCredits userId None w) = Inr ()
      \<and> users (snd (deductCredits userId None w))
        = (users w)(userId \<mapsto> \<lparr>row_credits = row_credits r - 1, row_is_subscribed = 0,
                                 row_subscription_expires_at = None\<rparr>))"
proof -
  obtain res w' where d: "deductCredits userId userInfo w = (res, w')"
    by (cases "deductCredits userId userInfo w")
  have p1: "userInfo = Some u \<and> isSubscribed u \<longrightarrow>
      fst (deductCredits userId userInfo w) = Inr ()
      \<and> users (snd (deductCredits userId userInfo w)) = users w"
    by (simp add: deductCredits_def deduct_user_def console_out_def)
  have p2: "users w userId = Some r \<and> in_force (clock w) r \<longrightarrow>
      users (snd (deductCredits userId None w)) = users w"
  proof
    assume a0: "users w userId = Some r \<and> in_force (clock w) r"
    then have a: "users w userId = Some r \<and> row_is_subscribed r = 1
       \<and> (case row_subscription_expires_at r of None \<Rightarrow> True | Some t \<Rightarrow> t > clock w)"
      by (simp add: in_force_def)
    obtain rc w1 where c: "checkCredits (Some userId) w = (rc, w1)"
      by (cases "checkCredits (Some userId) w")
    from a have "users w1 = users w \<and>
       (case rc of Inl e \<Rightarrow> True
        | Inr c \<Rightarrow> user c = None \<or> canProceed c \<and> user c = Some (user_of userId r))"
      using checkCredits_active [OF _ _ _ c] by blast
    moreover from checkCredits_missing [of userId w rc w1] a c
    have "userId = 0 \<longrightarrow> (case rc of Inl e \<Rightarrow> True | Inr c \<Rightarrow> \<not> canProceed c)"
      by (auto simp: checkCredits_def split: sum.splits)
    moreover have "userId \<noteq> 0 \<longrightarrow> (case rc of Inl e \<Rightarrow> True | Inr c \<Rightarrow> user c \<noteq> None)"
      using a c
      by (auto simp: checkCredits_def select_user_def db_fault_def balance_check_def Let_def
          split: sum.splits list.splits option.splits if_splits prod.splits)
    ultimately show "users (snd (deductCredits userId None w)) = users w"
      using a c
      by (cases "userId = 0")
         (auto simp: deductCredits_def deduct_user_def user_of_def console_out_def
          split: sum.splits option.splits)
  qed
  have p3: "faults w = [] \<and> userId \<noteq> 0 \<and> users w userId = Some r \<and> row_is_subscribed r \<noteq> 1
       \<and> row_credits r > 0 \<longrightarrow>
      fst (deductCredits userId None w) = Inr ()
      \<and> users (snd (deductCredits userId None w))
        = (users w)(userId \<mapsto> r\<lparr>row_credits := row_credits r - 1\<rparr>)"
    by (auto simp: deductCredits_def deduct_user_def checkCredits_def select_user_def
          db_fault_def balance_check_def user_of_def Let_def deduct_update_def console_out_def)
  have p4: "faults w = [] \<and> userId \<noteq> 0 \<and> users w userId = Some r \<and> row_is_subscribed r \<noteq> 1
       \<and> row_credits r \<le> 0 \<longrightarrow>
      deductCredits userId None w = (Inl (HttpError ''Insufficient credits'' 402), w)"
    by (auto simp: deductCredits_def deduct_user_def checkCredits_def select_user_def
          db_fault_def balance_check_def user_of_def Let_def or_default_def)
  have p5: "userInfo = Some u \<and> \<not> isSubscribed u \<longrightarrow>
      deductCredits userId userInfo w = deduct_update userId w"
    by (simp add: deductCredits_def deduct_user_def)
  have p6: "faults w = [] \<and> users w userId = Some r \<and> row_credits r > 0 \<longrightarrow>
      fst (deduct_update userId w) = Inr ()
      \<and> users (snd (deduct_update userId w))
        = (users w)(userId \<mapsto> r\<lparr>row_credits := row_credits r - 1\<rparr>)"
    by (simp add: deduct_update_def db_fault_def console_out_def)
  have p7: "faults w = [] \<and> (users w userId = None \<or> users w userId = Some r \<and> row_credits r \<le> 0) \<longrightarrow>
      deduct_update userId w
        = (Inl (Error ''Failed to deduct credit - insufficient credits''), w)"
    by (auto simp: deduct_update_def db_fault_def)
  have p8: "\<forall>v. map_option row_credits (users (snd (deductCredits userId userInfo w)) v)
              = map_option row_credits (users w v)
          \<or> v = userId \<and> fst (deductCredits userId userInfo w) = Inr ()
             \<and> (\<exists>r'. users w v = Some r' \<and> 0 < row_credits r'
                  \<and> map_option row_credits (users (snd (deductCredits userId userInfo w)) v)
                    = Some (row_credits r' - 1))"
    using deductCredits_credits [OF d] by (simp add: d)
  have p9: "(\<forall>v r'. users w v = Some r' \<longrightarrow> 0 \<le> row_credits r') \<longrightarrow>
       (\<forall>v r'. users (snd (deductCredits userId userInfo w)) v = Some r' \<longrightarrow> 0 \<le> row_credits r')"
  proof (intro impI allI)
    fix v r'
    assume inv: "\<forall>v r'. users w v = Some r' \<longrightarrow> 0 \<le> row_credits r'"
      and after: "users (snd (deductCredits userId userInfo w)) v = Some r'"
    from deductCredits_credits [OF d, of v] after inv show "0 \<le> row_credits r'"
      by (cases "users w v") (auto simp: d)
  qed
  have p10: "faults w = [] \<and> userId \<noteq> 0 \<and> users w userId = Some r \<and> row_is_subscribed r = 1
       \<and> row_subscription_expires_at r = Some t \<and> \<not> t > clock w \<and> row_credits r > 0 \<longrightarrow>
      fst (deductCredits userId None w) = Inr ()
      \<and> users (snd (deductCredits userId None w))
        = (users w)(userId \<mapsto> \<lparr>row_credits = row_credits r - 1, row_is_subscribed = 0,
                                 row_subscription_expires_at = None\<rparr>)"
    by (auto simp: deductCredits_def deduct_user_def checkCredits_def select_user_def
          db_fault_def balance_check_def user_of_def Let_def deduct_update_def console_out_def
          updateSubscriptionStatus_def)
  from p1 p2 p3 p4 p5 p6 p7 p8 p9 p10 show ?thesis by blast
qed


theorem deductCredits_contract_witness:
  "users (snd (deductCredits 1 (Some \<lparr>ident = 1, credits = 3, isSubscribed = True,
                                     subscriptionExpiresAt = None\<rparr>)
                 (example_world 50 []))) = example_users
   \<and> users (snd (deductCredits 3 None (example_world 50 []))) = example_users
   \<and> fst (deductCredits 1 None (example_world 50 [])) = Inr ()
   \<and> users (snd (deductCredits 1 None (example_world 50 []))) 1
     = Some \<lparr>row_credits = 2, row_is_subscribed = 0, row_subscription_expires_at = None\<rparr>
   \<and> deductCredits 2 None (example_world 50 [])
     = (Inl (HttpError ''Insufficient credits'' 402), example_world 50 [])
   \<and> deductCredits 2 (Some \<lparr>ident = 2, credits = 5, isSubscribed = False,
                            subscriptionExpiresAt = None\<rparr>) (example_world 50 [])
     = (Inl (Error ''Failed to deduct credit - insufficient credits''), example_world 50 [])
   \<and> fst (deductCredits 5 None (example_world 200 [])) = Inr ()
   \<and> users (snd (deductCredits 5 None (example_world 200 []))) 5
     = Some \<lparr>row_credits = 0, row_is_subscribed = 0, row_subscription_expires_at = None\<rparr>"
proof -
  note t1 = deductCredits_contract
      [of "Some \<lparr>ident = 1, credits = 3, isSubscribed = True, subscriptionExpiresAt = None\<rparr>"
          "\<lparr>ident = 1, credits = 3, isSubscribed = True, subscriptionExpiresAt = None\<rparr>"
          1 "example_world 50 []" undefined 0]
  note t2 = deductCredits_contract
      [of None undefined 3 "example_world 50 []"
          "\<lparr>row_credits = 0, row_is_subscribed = 1, row_subscription_expires_at = Some 100\<rparr>"
          100]
  note t3 = deductCredits_contract
      [of None undefined 1 "example_world 50 []"
          "\<lparr>row_credits = 3, row_is_subscribed = 0, row_subscription_expires_at = None\<rparr>" 0]
  note t4 = deductCredits_contract
      [of None undefined 2 "example_world 50 []"
          "\<lparr>row_credits = 0, row_is_subscribed = 0, row_subscription_expires_at = None\<rparr>" 0]
  note t5 = deductCredits_contract
      [of "Some \<lparr>ident = 2, credits = 5, isSubscribed = False, subscriptionExpiresAt = None\<rparr>"
          "\<lparr>ident = 2, credits = 5, isSubscribed = False, subscriptionExpiresAt = None\<rparr>"
          2 "example_world 50 []"
          "\<lparr>row_credits = 0, row_is_subscribed = 0, row_subscription_expires_at = None\<rparr>" 0]
  note t6 = deductCredits_contract
      [of None undefined 5 "example_world 200 []"
          "\<lparr>row_credits = 1, row_is_subscribed = 1, row_subscription_expires_at = Some 100\<rparr>"
          100]
  from t1 have "users (snd (deductCredits 1 (Some \<lparr>ident = 1, credits = 3, isSubscribed = True,
                                     subscriptionExpiresAt = None\<rparr>)
                 (example_world 50 []))) = example_users"
    by (simp add: example_world_def)
  moreover from t2 have "users (snd (deductCredits 3 None (example_world 50 []))) = example_users"
    by (simp add: example_world_def example_users_def in_force_def)
  moreover from t3 have "fst (deductCredits 1 None (example_world 50 [])) = Inr ()
     \<and> users (snd (deductCredits 1 None (example_world 50 []))) 1
       = Some \<lparr>row_credits = 2, row_is_subscribed = 0, row_subscription_expires_at = None\<rparr>"
    by (simp add: example_world_def example_users_def)
  moreover from t4 have "deductCredits 2 None (example_world 50 [])
     = (Inl (HttpError ''Insufficient credits'' 402), example_world 50 [])"
    by (simp add: example_world_def example_users_def)
  moreover from t5 have "deductCredits 2 (Some \<lparr>ident = 2, credits = 5, isSubscribed = False,
                            subscriptionExpiresAt = None\<rparr>) (example_world 50 [])
     = (Inl (Error ''Failed to deduct credit - insufficient credits''), example_world 50 [])"
    by (simp add: example_world_def example_users_def)
  moreover from t6 have "fst (deductCredits 5 None (example_world 200 [])) = Inr ()
     \<and> users (snd (deductCredits 5 None (example_world 200 []))) 5
       = Some \<lparr>row_credits = 0, row_is_subscribed = 0, row_subscription_expires_at = None\<rparr>"
    by (simp add: example_world_def example_users_def)
  ultimately show ?thesis by blast
qed

text \<open>
  The claim as worded exempts every user whose record has the flag set. User 5 has the
  flag set and one credit; at instant 100 the subscription, which ran until 100, is no
  longer in force, and \<open>deductCredits\<close> clears the flag and takes the credit.
\<close>

theorem deductCredits_lapsed_subscriber_counterexample:
  "users (example_world 100 []) 5
     = Some \<lparr>row_credits = 1, row_is_subscribed = 1, row_subscription_expires_at = Some 100\<rparr>
   \<and> fst (deductCredits 5 None (example_world 100 [])) = Inr ()
   \<and> users (snd (deductCredits 5 None (example_world 100 []))) 5
     = Some \<lparr>row_credits = 0, row_is_subscribed = 0, row_subscription_expires_at = None\<rparr>"
  by (simp add: deductCredits_def deduct_user_def checkCredits_def select_user_def
        db_fault_def balance_check_def user_of_def Let_def deduct_update_def console_out_def
        updateSubscriptionStatus_def example_world_def example_users_def)

text \<open>
  Claim C10. A row with the flag set and no expiry stored never enters the expiry test:
  when the store answers, \<open>checkCredits\<close> lets it proceed for every balance and every
  clock and leaves the state exactly as it was (no downgrade), and \<open>deductCredits\<close>
  without pre-fetched info returns normally having written one console line and
  nothing else.
\<close>

theorem flag_without_expiry_is_perpetual:
  "faults w = [] \<and> uid \<noteq> 0 \<and> users w uid = Some r \<and> row_is_subscribed r = 1
   \<and> row_subscription_expires_at r = None \<longrightarrow>
     checkCredits (Some uid) w
       = (Inr \<lparr>canProceed = True,
               user = Some \<lparr>ident = uid, credits = row_credits r, isSubscribed = True,
                            subscriptionExpiresAt = None\<rparr>,
               reason = None\<rparr>, w)
     \<and> deductCredits uid None w
       = (Inr (),
          console_out
            (ConsoleLog (''User '' @ show_int uid @ '' is subscribed - no credit deduction'')) w)
     \<and> users (snd (deductCredits uid None w)) = users w"
  by (auto simp: deductCredits_def deduct_user_def checkCredits_def select_user_def
        db_fault_def balance_check_def user_of_def Let_def console_out_def)

theorem flag_without_expiry_is_perpetual_witness:
  "checkCredits (Some 4) (example_world 50 [])
       = (Inr \<lparr>canProceed = True,
               user = Some \<lparr>ident = 4, credits = 0, isSubscribed = True,
                            subscriptionExpiresAt = None\<rparr>,
               reason = None\<rparr>, example_world 50 [])
   \<and> fst (deductCredits 4 None (example_world 50 [])) = Inr ()
   \<and> users (snd (deductCredits 4 None (example_world 50 []))) = example_users"
  using flag_without_expiry_is_perpetual
      [of "example_world 50 []" 4
          "\<lparr>row_credits = 0, row_is_subscribed = 1, row_subscription_expires_at = None\<rparr>"]
  by (simp add: example_world_def example_users_def console_out_def)

section \<open>The saga primitive\<close>

text \<open>
  Claim C2, as the code has it. If the deduction throws, \<open>executeWithRollback\<close> throws
  the same exception from the state the deduction left, whatever \<open>operation\<close> is: it
  is not run. If the deduction succeeds and \<open>operation\<close> throws \<open>e\<close>, \<open>refundCredits\<close>
  is run on the state \<open>operation\<close> left and \<open>e\<close> itself is thrown, for every store
  behaviour. If \<open>operation\<close> returns a value, that value is returned and nothing else
  is done. For a stored non-subscriber a successful deduction took exactly one credit;
  so with an \<open>operation\<close> that leaves the table alone the balance after a successful call
  is one less than before, and after a failing call it equals the balance before
  provided the store answers the statements of the refund.
\<close>

theorem executeWithRollback_saga:
  "(deductCredits userId None w = (Inl e, w1) \<longrightarrow>
      executeWithRollback userId operation w = (Inl e, w1))
   \<and> (deductCredits userId None w = (Inr (), w1) \<and> operation w1 = (Inl e, w2) \<longrightarrow>
      executeWithRollback userId operation w
        = (Inl e,
           snd (refundCredits userId
                  (console_out
                     (ConsoleLog (''Operation failed, rolling back credit deduction for user ''
                                  @ show_int userId))
                     w2))))
   \<and> (deductCredits userId None w = (Inr (), w1) \<and> operation w1 = (Inr result, w2) \<longrightarrow>
      executeWithRollback userId operation w = (Inr result, w2))
   \<and> (users w userId = Some r \<and> row_is_subscribed r \<noteq> 1
       \<and> deductCredits userId None w = (Inr (), w1) \<longrightarrow>
      users w1 = (users w)(userId \<mapsto> r\<lparr>row_credits := row_credits r - 1\<rparr>))
   \<and> (users w userId = Some r \<and> row_is_subscribed r \<noteq> 1
       \<and> deductCredits userId None w = (Inr (), w1) \<and> operation w1 = (Inr result, w2)
       \<and> users w2 = users w1 \<longrightarrow>
      users (snd (executeWithRollback userId operation w))
        = (users w)(userId \<mapsto> r\<lparr>row_credits := row_credits r - 1\<rparr>))
   \<and> (users w userId = Some r \<and> row_is_subscribed r \<noteq> 1
       \<and> deductCredits userId None w = (Inr (), w1) \<and> operation w1 = (Inl e, w2)
       \<and> users w2 = users w1 \<and> faults w2 = [] \<longrightarrow>
      users (snd (executeWithRollback userId operation w)) = users w)"
proof -
  have p1: "deductCredits userId None w = (Inl e, w1) \<longrightarrow>
      executeWithRollback userId operation w = (Inl e, w1)"
    by (simp add: executeWithRollback_def)
  have p2: "deductCredits userId None w = (Inr (), w1) \<and> operation w1 = (Inl e, w2) \<longrightarrow>
      executeWithRollback userId operation w
        = (Inl e,
           snd (refundCredits userId
                  (console_out
                     (ConsoleLog (''Operation failed, rolling back credit deduction for user ''
                                  @ show_int userId))
                     w2)))"
    by (simp add: executeWithRollback_def refundCredits_def split: prod.splits sum.splits)
  have p3: "deductCredits userId None w = (Inr (), w1) \<and> operation w1 = (Inr result, w2) \<longrightarrow>
      executeWithRollback userId operation w = (Inr result, w2)"
    by (simp add: executeWithRollback_def)
  have p4: "users w userId = Some r \<and> row_is_subscribed r \<noteq> 1
       \<and> deductCredits userId None w = (Inr (), w1) \<longrightarrow>
      users w1 = (users w)(userId \<mapsto> r\<lparr>row_credits := row_credits r - 1\<rparr>)"
    by (auto dest: deductCredits_non_subscriber_success)
  have p5: "users w userId = Some r \<and> row_is_subscribed r \<noteq> 1
       \<and> deductCredits userId None w = (Inr (), w1) \<and> operation w1 = (Inr result, w2)
       \<and> users w2 = users w1 \<longrightarrow>
      users (snd (executeWithRollback userId operation w))
        = (users w)(userId \<mapsto> r\<lparr>row_credits := row_credits r - 1\<rparr>)"
    using p3 p4 by simp
  have p6: "users w userId = Some r \<and> row_is_subscribed r \<noteq> 1
       \<and> deductCredits userId None w = (Inr (), w1) \<and> operation w1 = (Inl e, w2)
       \<and> users w2 = users w1 \<and> faults w2 = [] \<longrightarrow>
      users (snd (executeWithRollback userId operation w)) = users w"
  proof
    assume a: "users w userId = Some r \<and> row_is_subscribed r \<noteq> 1
       \<and> deductCredits userId None w = (Inr (), w1) \<and> operation w1 = (Inl e, w2)
       \<and> users w2 = users w1 \<and> faults w2 = []"
    let ?w2 = "console_out
                 (ConsoleLog (''Operation failed, rolling back credit deduction for user ''
                              @ show_int userId)) w2"
    from a p4 have u2: "users ?w2 userId = Some (r\<lparr>row_credits := row_credits r - 1\<rparr>)"
      and f2: "faults ?w2 = []" and uu: "users ?w2 = (users w)(userId \<mapsto> r\<lparr>row_credits := row_credits r - 1\<rparr>)"
      by (simp_all add: console_out_def)
    from a have nz: "userId \<noteq> 0"
      by (auto simp: deductCredits_def deduct_user_def checkCredits_def)
    from f2 nz u2 a
    have "users (snd (refundCredits userId ?w2))
            = (users ?w2)(userId \<mapsto> (r\<lparr>row_credits := row_credits r - 1\<rparr>)
                                       \<lparr>row_credits := row_credits (r\<lparr>row_credits := row_credits r - 1\<rparr>) + 1\<rparr>)"
      using refundCredits_effect [of ?w2 userId "r\<lparr>row_credits := row_credits r - 1\<rparr>"]
      by simp
    with uu a have "users (snd (refundCredits userId ?w2)) = users w"
      by (auto simp: fun_eq_iff)
    with a p2 show "users (snd (executeWithRollback userId operation w)) = users w"
      by simp
  qed
  from p1 p2 p3 p4 p5 p6 show ?thesis by blast
qed

theorem executeWithRollback_saga_witness:
  "executeWithRollback 2 succeeding_operation (example_world 50 [])
     = (Inl (HttpError ''Insufficient credits'' 402), example_world 50 [])
   \<and> fst (executeWithRollback 1 failing_operation (example_world 50 []))
     = Inl (Error ''upstream unavailable'')
   \<and> users (snd (executeWithRollback 1 failing_operation (example_world 50 []))) = example_users
   \<and> fst (executeWithRollback 1 succeeding_operation (example_world 50 [])) = Inr 42
   \<and> users (snd (executeWithRollback 1 succeeding_operation (example_world 50 []))) 1
     = Some \<lparr>row_credits = 2, row_is_subscribed = 0, row_subscription_expires_at = None\<rparr>"
proof -
  let ?r = "\<lparr>row_credits = 3, row_is_subscribed = 0, row_subscription_expires_at = None\<rparr>"
  let ?w = "example_world 50 []"
  obtain w1 where d1: "deductCredits 1 None ?w = (Inr (), w1)" and f1: "faults w1 = []"
    by (simp add: deductCredits_def deduct_user_def checkCredits_def select_user_def
          db_fault_def balance_check_def user_of_def Let_def deduct_update_def
          example_world_def example_users_def console_out_def)
  have d2: "deductCredits 2 None ?w = (Inl (HttpError ''Insufficient credits'' 402), ?w)"
    by (simp add: deductCredits_def deduct_user_def checkCredits_def select_user_def
          db_fault_def balance_check_def user_of_def Let_def or_default_def
          example_world_def example_users_def)
  have u: "users ?w 1 = Some ?r" "row_is_subscribed ?r \<noteq> 1" "users ?w = example_users"
    by (simp_all add: example_world_def example_users_def)
  have o1: "failing_operation w1 = (Inl (Error ''upstream unavailable''), w1)"
    by (simp add: failing_operation_def)
  have o2: "succeeding_operation w1 = (Inr 42, w1)"
    by (simp add: succeeding_operation_def)
  note t1 = executeWithRollback_saga
      [of 2 ?w "HttpError ''Insufficient credits'' 402" ?w
          succeeding_operation undefined undefined undefined]
  note t2 = executeWithRollback_saga
      [of 1 ?w "Error ''upstream unavailable''" w1 failing_operation w1 undefined ?r]
  note t3 = executeWithRollback_saga [of 1 ?w undefined w1 succeeding_operation w1 42 ?r]
  note fail_users = t2 [THEN conjunct2, THEN conjunct2, THEN conjunct2, THEN conjunct2,
      THEN conjunct2, THEN mp]
  note ok_users = t3 [THEN conjunct2, THEN conjunct2, THEN conjunct2, THEN conjunct2,
      THEN conjunct1, THEN mp]
  have "executeWithRollback 2 succeeding_operation ?w
     = (Inl (HttpError ''Insufficient credits'' 402), ?w)"
    by (rule t1 [THEN conjunct1, THEN mp]) (rule d2)
  moreover have "fst (executeWithRollback 1 failing_operation ?w)
     = Inl (Error ''upstream unavailable'')"
    using t2 [THEN conjunct2, THEN conjunct1, THEN mp, OF conjI, OF d1 o1] by simp
  moreover have "users (snd (executeWithRollback 1 failing_operation ?w)) = users ?w"
    by (rule fail_users) (intro conjI u d1 o1 f1 refl)
  then have "users (snd (executeWithRollback 1 failing_operation ?w)) = example_users"
    by (simp only: u)
  moreover have "fst (executeWithRollback 1 succeeding_operation ?w) = Inr 42"
    using t3 [THEN conjunct2, THEN conjunct2, THEN conjunct1, THEN mp, OF conjI, OF d1 o2]
    by simp
  moreover have "users (snd (executeWithRollback 1 succeeding_operation ?w))
          = (users ?w)(1 \<mapsto> ?r\<lparr>row_credits := row_credits ?r - 1\<rparr>)"
    by (rule ok_users) (intro conjI u d1 o2 refl)
  then have "users (snd (executeWithRollback 1 succeeding_operation ?w)) 1
       = Some \<lparr>row_credits = 2, row_is_subscribed = 0, row_subscription_expires_at = None\<rparr>"
    by simp
  ultimately show ?thesis by blast
qed

text \<open>
  The claim as worded promises the balance back after every failing call. User 1 has
  three credits; the two statements of the deduction succeed, \<open>operation\<close> throws, and
  the first statement of the refund fails: the refund is swallowed, the original
  exception is thrown, and the balance stays at two.
\<close>

theorem executeWithRollback_lost_refund_counterexample:
  "users (example_world 50 [None, None, Some ''SQLITE_BUSY'']) 1
     = Some \<lparr>row_credits = 3, row_is_subscribed = 0, row_subscription_expires_at = None\<rparr>
   \<and> fst (deductCredits 1 None (example_world 50 [None, None, Some ''SQLITE_BUSY''])) = Inr ()
   \<and> fst (executeWithRollback 1 failing_operation
            (example_world 50 [None, None, Some ''SQLITE_BUSY'']))
     = Inl (Error ''upstream unavailable'')
   \<and> users (snd (executeWithRollback 1 failing_operation
                   (example_world 50 [None, None, Some ''SQLITE_BUSY'']))) 1
     = Some \<lparr>row_credits = 2, row_is_subscribed = 0, row_subscription_expires_at = None\<rparr>"
  by (simp add: executeWithRollback_def refundCredits_def refund_body_def getUserCredits_def
        deductCredits_def deduct_user_def checkCredits_def select_user_def
        db_fault_def balance_check_def user_of_def Let_def deduct_update_def console_out_def
        failing_operation_def example_world_def example_users_def)


text \<open>
  The refund decides on the subscription as it stands when the refund runs, not on
  whether a credit was taken. User 5 is a subscriber until instant 100 and is not
  charged at instant 50; the operation throws at instant 150; the refund then finds the
  subscription lapsed, clears the flag and adds a credit that was never deducted.
\<close>

lemma executeWithRollback_lapse_during_operation:
  "users (example_world 50 []) 5
     = Some \<lparr>row_credits = 1, row_is_subscribed = 1, row_subscription_expires_at = Some 100\<rparr>
   \<and> fst (executeWithRollback 5 slow_failing_operation (example_world 50 []))
     = Inl (Error ''upstream unavailable'')
   \<and> users (snd (executeWithRollback 5 slow_failing_operation (example_world 50 []))) 5
     = Some \<lparr>row_credits = 2, row_is_subscribed = 0, row_subscription_expires_at = None\<rparr>"
  by (simp add: executeWithRollback_def refundCredits_def refund_body_def getUserCredits_def
        refund_update_def updateSubscriptionStatus_def
        deductCredits_def deduct_user_def checkCredits_def select_user_def
        db_fault_def balance_check_def user_of_def Let_def console_out_def
        slow_failing_operation_def example_world_def example_users_def)

section \<open>Starting a job\<close>

lemma db_fault_tables:
  "db_fault s = (f, s1) \<Longrightarrow>
     users s1 = users s \<and> clock s1 = clock s \<and> console s1 = console s
     \<and> videos s1 = videos s \<and> processing_results s1 = processing_results s
     \<and> results_seq s1 = results_seq s \<and> highlight_clips s1 = highlight_clips s
     \<and> thumbnails s1 = thumbnails s \<and> captions s1 = captions s"
  by (auto simp: db_fault_def split: list.splits)

lemma checkCredits_tables:
  "checkCredits userId s = (res, s1) \<Longrightarrow> processing_results s1 = processing_results s"
  by (auto simp: checkCredits_def select_user_def db_fault_def updateSubscriptionStatus_def
        console_out_def Let_def
      split: option.splits prod.splits sum.splits list.splits if_splits)

lemma select_video_tables:
  "select_video videoId s = (res, s1) \<Longrightarrow> processing_results s1 = processing_results s"
  by (auto simp: select_video_def db_fault_def split: option.splits prod.splits list.splits)

lemma insert_processing_result_error:
  "insert_processing_result videoId userId s = (Inl e, s1) \<Longrightarrow>
     processing_results s1 = processing_results s"
  by (auto simp: insert_processing_result_def db_fault_def Let_def
      split: option.splits prod.splits list.splits)

lemma insert_processing_result_ok:
  "insert_processing_result videoId userId s = (Inr resultId, s1) \<Longrightarrow>
     processing_results s1
       = (processing_results s)(resultId \<mapsto>
            \<lparr>pr_video_id = videoId, pr_user_id = userId, pr_status = ''processing'',
             pr_progress = 0, pr_error_message = None\<rparr>)"
  by (auto simp: insert_processing_result_def db_fault_def Let_def
      split: option.splits prod.splits list.splits)

text \<open>
  Claim C7. When the request carries a user and \<open>checkCredits\<close> answers with
  \<open>canProceed = false\<close>, the handler ends with \<open>HttpError(reason, 402)\<close> and the
  \<open>processing_results\<close> table is as before. More generally no failing request adds a
  row. A request that is answered had, if it carries a user, a credit check that
  passed, and added exactly one row, under the id it returns, with status
  \<open>processing\<close>, progress 0 and no error message.
\<close>

theorem process_start_credit_gate:
  "(rq_id req = Some videoId \<and> rq_user req = Some u
    \<and> checkCredits (Some (au_id u)) s = (Inr cc, s1) \<and> \<not> canProceed cc \<longrightarrow>
      process_start req s
        = (Inl (HttpError (or_default (reason cc) ''Insufficient credits'') 402), s1)
      \<and> processing_results s1 = processing_results s)
   \<and> (process_start req s = (Inl e, s') \<longrightarrow> processing_results s' = processing_results s)
   \<and> (process_start req s = (Inr (resp, task), s') \<longrightarrow>
        (\<forall>u. rq_user req = Some u \<longrightarrow>
              (\<exists>cc s1. checkCredits (Some (au_id u)) s = (Inr cc, s1) \<and> canProceed cc))
        \<and> (\<exists>videoId. rq_id req = Some videoId
              \<and> processing_results s'
                = (processing_results s)(psr_processingId resp \<mapsto>
                     \<lparr>pr_video_id = videoId,
                      pr_user_id = truthy_id (map_option au_id (rq_user req)),
                      pr_status = ''processing'', pr_progress = 0,
                      pr_error_message = None\<rparr>))
        \<and> task_resultId task = psr_processingId resp)"
proof (intro conjI impI)
  assume a: "rq_id req = Some videoId \<and> rq_user req = Some u
    \<and> checkCredits (Some (au_id u)) s = (Inr cc, s1) \<and> \<not> canProceed cc"
  then show "process_start req s
        = (Inl (HttpError (or_default (reason cc) ''Insufficient credits'') 402), s1)"
    by (simp add: process_start_def)
  from a show "processing_results s1 = processing_results s"
    by (auto dest: checkCredits_tables)
next
  assume a: "process_start req s = (Inl e, s')"
  show "processing_results s' = processing_results s"
  proof (cases "rq_id req")
    case None
    with a show ?thesis by (simp add: process_start_def)
  next
    case (Some videoId)
    obtain g sg where g: "(case rq_user req of
                   None \<Rightarrow> (Inr (), s)
                 | Some u \<Rightarrow>
                     (case checkCredits (Some (au_id u)) s of
                        (Inl e, s1) \<Rightarrow> (Inl e, s1)
                      | (Inr creditCheck, s1) \<Rightarrow>
                          if \<not> canProceed creditCheck
                          then (Inl (HttpError (or_default (reason creditCheck)
                                                   ''Insufficient credits'') 402), s1)
                          else (Inr (), s1))) = (g, sg)"
      by (cases "(case rq_user req of
                   None \<Rightarrow> (Inr (), s)
                 | Some u \<Rightarrow>
                     (case checkCredits (Some (au_id u)) s of
                        (Inl e, s1) \<Rightarrow> (Inl e, s1)
                      | (Inr creditCheck, s1) \<Rightarrow>
                          if \<not> canProceed creditCheck
                          then (Inl (HttpError (or_default (reason creditCheck)
                                                   ''Insufficient credits'') 402), s1)
                          else (Inr (), s1)))")
    then have sg: "processing_results sg = processing_results s"
      by (auto dest: checkCredits_tables split: option.splits prod.splits sum.splits if_splits)
    obtain v sv where v: "select_video videoId sg = (v, sv)"
      by (cases "select_video videoId sg")
    note sv = select_video_tables [OF v]
    from a Some g v sg sv show ?thesis
      by (auto simp: process_start_def dest: insert_processing_result_error
          split: sum.splits option.splits prod.splits)
  qed
next
  assume a: "process_start req s = (Inr (resp, task), s')"
  then obtain videoId where vid: "rq_id req = Some videoId"
    by (cases "rq_id req") (auto simp: process_start_def)
  show "\<forall>u. rq_user req = Some u \<longrightarrow>
              (\<exists>cc s1. checkCredits (Some (au_id u)) s = (Inr cc, s1) \<and> canProceed cc)"
  proof (intro allI impI)
    fix u assume u: "rq_user req = Some u"
    obtain rc s1 where c: "checkCredits (Some (au_id u)) s = (rc, s1)"
      by (cases "checkCredits (Some (au_id u)) s")
    from a vid u c show "\<exists>cc s1. checkCredits (Some (au_id u)) s = (Inr cc, s1) \<and> canProceed cc"
      by (cases rc) (auto simp: process_start_def split: if_splits)
  qed
  obtain g sg where g: "(case rq_user req of
                   None \<Rightarrow> (Inr (), s)
                 | Some u \<Rightarrow>
                     (case checkCredits (Some (au_id u)) s of
                        (Inl e, s1) \<Rightarrow> (Inl e, s1)
                      | (Inr creditCheck, s1) \<Rightarrow>
                          if \<not> canProceed creditCheck
                          then (Inl (HttpError (or_default (reason creditCheck)
                                                   ''Insufficient credits'') 402), s1)
                          else (Inr (), s1))) = (g, sg)"
    by (cases "(case rq_user req of
                   None \<Rightarrow> (Inr (), s)
                 | Some u \<Rightarrow>
                     (case checkCredits (Some (au_id u)) s of
                        (Inl e, s1) \<Rightarrow> (Inl e, s1)
                      | (Inr creditCheck, s1) \<Rightarrow>
                          if \<not> canProceed creditCheck
                          then (Inl (HttpError (or_default (reason creditCheck)
                                                   ''Insufficient credits'') 402), s1)
                          else (Inr (), s1)))")
  then have sg: "processing_results sg = processing_results s"
    by (auto dest: checkCredits_tables split: option.splits prod.splits sum.splits if_splits)
  obtain v sv where v: "select_video videoId sg = (v, sv)"
    by (cases "select_video videoId sg")
  note sv = select_video_tables [OF v]
  from a vid g v sg sv
  have "processing_results s'
          = (processing_results s)(psr_processingId resp \<mapsto>
               \<lparr>pr_video_id = videoId,
                pr_user_id = truthy_id (map_option au_id (rq_user req)),
                pr_status = ''processing'', pr_progress = 0,
                pr_error_message = None\<rparr>)
        \<and> task_resultId task = psr_processingId resp"
    by (auto simp: process_start_def dest: insert_processing_result_ok
        split: sum.splits option.splits prod.splits)
  with vid show "\<exists>videoId. rq_id req = Some videoId
              \<and> processing_results s'
                = (processing_results s)(psr_processingId resp \<mapsto>
                     \<lparr>pr_video_id = videoId,
                      pr_user_id = truthy_id (map_option au_id (rq_user req)),
                      pr_status = ''processing'', pr_progress = 0,
                      pr_error_message = None\<rparr>)"
    and "task_resultId task = psr_processingId resp"
    by auto
qed


theorem process_start_credit_gate_witness:
  "process_start (example_request 10 (Some 2)) example_server
     = (Inl (HttpError ''Insufficient credits'' 402), example_server)
   \<and> fst (process_start (example_request 10 (Some 1)) example_server)
     = Inr (\<lparr>psr_message = ''Processing started'', psr_processingId = 3\<rparr>,
            \<lparr>task_userId = Some 1, task_videoId = 10, task_resultId = 3\<rparr>)
   \<and> processing_results (snd (process_start (example_request 10 (Some 1)) example_server)) 3
     = Some \<lparr>pr_video_id = 10, pr_user_id = Some 1, pr_status = ''processing'',
             pr_progress = 0, pr_error_message = None\<rparr>"
proof -
  let ?cc = "\<lparr>canProceed = False,
              user = Some \<lparr>ident = 2, credits = 0, isSubscribed = False,
                           subscriptionExpiresAt = None\<rparr>,
              reason = Some ''Insufficient credits''\<rparr>"
  have c2: "checkCredits (Some 2) example_server = (Inr ?cc, example_server)"
    by (simp add: checkCredits_def select_user_def db_fault_def balance_check_def user_of_def
          Let_def example_server_def example_users_def)
  have r2: "rq_id (example_request 10 (Some 2)) = Some 10"
    "rq_user (example_request 10 (Some 2)) = Some \<lparr>au_id = 2, au_email = ''user@example.org''\<rparr>"
    by (simp_all add: example_request_def)
  note t2 = process_start_credit_gate
      [of "example_request 10 (Some 2)" 10 "\<lparr>au_id = 2, au_email = ''user@example.org''\<rparr>"
          example_server ?cc example_server, THEN conjunct1, THEN mp, THEN conjunct1]
  have "process_start (example_request 10 (Some 2)) example_server
     = (Inl (HttpError (or_default (reason ?cc) ''Insufficient credits'') 402), example_server)"
    by (rule t2) (simp add: r2 c2)
  then have g1: "process_start (example_request 10 (Some 2)) example_server
     = (Inl (HttpError ''Insufficient credits'' 402), example_server)"
    by (simp add: or_default_def)
  obtain s' where p1: "process_start (example_request 10 (Some 1)) example_server
     = (Inr (\<lparr>psr_message = ''Processing started'', psr_processingId = 3\<rparr>,
             \<lparr>task_userId = Some 1, task_videoId = 10, task_resultId = 3\<rparr>), s')"
    by (simp add: process_start_def checkCredits_def select_user_def db_fault_def
          balance_check_def user_of_def Let_def select_video_def insert_processing_result_def
          truthy_id_def example_request_def example_server_def example_users_def)
  note t1 = process_start_credit_gate
      [of "example_request 10 (Some 1)" undefined undefined example_server undefined undefined
          undefined s' "\<lparr>psr_message = ''Processing started'', psr_processingId = 3\<rparr>"
          "\<lparr>task_userId = Some 1, task_videoId = 10, task_resultId = 3\<rparr>",
          THEN conjunct2, THEN conjunct2, THEN mp, OF p1, THEN conjunct2, THEN conjunct1]
  from t1 have "processing_results s' 3
     = Some \<lparr>pr_video_id = 10, pr_user_id = Some 1, pr_status = ''processing'',
             pr_progress = 0, pr_error_message = None\<rparr>"
    by (auto simp: example_request_def truthy_id_def)
  with g1 p1 show ?thesis by simp
qed

section \<open>Failure of the background task\<close>






section \<open>Status read model\<close>

lemma load_artifacts_result:
  "load_artifacts processingId st s = (Inr (hs, ts, cs), s2) \<Longrightarrow>
     (st = ''completed'' \<longrightarrow>
        hs = sort_key hc_start_time
               (filter (\<lambda>h. hc_processing_result_id h = processingId) (highlight_clips s))
        \<and> ts = sort_key th_timestamp
                 (filter (\<lambda>t. th_processing_result_id t = processingId) (thumbnails s))
        \<and> cs = filter (\<lambda>c. cp_processing_result_id c = processingId) (captions s))
     \<and> (st \<noteq> ''completed'' \<longrightarrow> hs = [] \<and> ts = [] \<and> cs = [])"
proof (cases "st = ''completed''")
  case False
  assume "load_artifacts processingId st s = (Inr (hs, ts, cs), s2)"
  with False show ?thesis by (simp add: load_artifacts_def)
next
  case True
  assume a: "load_artifacts processingId st s = (Inr (hs, ts, cs), s2)"
  obtain f1 s1 where d1: "db_fault s = (f1, s1)" by (cases "db_fault s")
  obtain f2 s2' where d2: "db_fault s1 = (f2, s2')" by (cases "db_fault s1")
  obtain f3 s3 where d3: "db_fault s2' = (f3, s3)" by (cases "db_fault s2'")
  note t1 = db_fault_tables [OF d1] and t2 = db_fault_tables [OF d2]
    and t3 = db_fault_tables [OF d3]
  from a True d1 d2 d3 t1 t2 t3 show ?thesis
    by (auto simp: load_artifacts_def select_highlights_def select_thumbnails_def
          select_captions_def split: option.splits)
qed

lemma load_artifacts_no_fault:
  "faults s = [] \<Longrightarrow> \<exists>a. load_artifacts processingId st s = (Inr a, s)"
  by (simp add: load_artifacts_def select_highlights_def select_thumbnails_def
        select_captions_def db_fault_def)

text \<open>
  Claim C8. Whenever the status query answers, the answer carries the job row's
  status, progress and error message, and: if the status is \<open>completed\<close>, the
  highlights are the job's clip rows sorted by start time, the thumbnails its
  thumbnail rows sorted by timestamp and the captions its caption rows; for any other
  status (\<open>pending\<close>, \<open>processing\<close>, also \<open>failed\<close>) the three arrays are empty,
  whatever the derived tables hold. The query does answer when the store answers,
  the job and its video exist and the access test lets the requester through.
\<close>

theorem process_status_gates_on_completed:
  "(process_status req s = (Inr resp, s') \<longrightarrow>
      (\<exists>processingId job. rq_id req = Some processingId
         \<and> processing_results s processingId = Some job
         \<and> res_id resp = processingId \<and> res_status resp = pr_status job
         \<and> res_progress resp = pr_progress job
         \<and> res_errorMessage resp = pr_error_message job
         \<and> (pr_status job = ''completed'' \<longrightarrow>
              res_highlights resp
                = map highlight_json
                    (sort_key hc_start_time
                       (filter (\<lambda>h. hc_processing_result_id h = processingId)
                          (highlight_clips s)))
              \<and> sorted (map hl_startTime (res_highlights resp))
              \<and> res_thumbnails resp
                = map thumbnail_json
                    (sort_key th_timestamp
                       (filter (\<lambda>t. th_processing_result_id t = processingId) (thumbnails s)))
              \<and> sorted (map tn_timestamp (res_thumbnails resp))
              \<and> res_captions resp
                = map caption_json
                    (filter (\<lambda>c. cp_processing_result_id c = processingId) (captions s)))
         \<and> (pr_status job \<noteq> ''completed'' \<longrightarrow>
              res_highlights resp = [] \<and> res_thumbnails resp = []
              \<and> res_captions resp = [])))
   \<and> (faults s = [] \<and> rq_id req = Some pid \<and> processing_results s pid = Some j
       \<and> videos s (pr_video_id j) = Some v \<and> \<not> access_denied req j \<longrightarrow>
      (\<exists>r. process_status req s = (Inr r, s)))"
proof (intro conjI impI)
  assume a: "process_status req s = (Inr resp, s')"
  then obtain processingId where pid: "rq_id req = Some processingId"
    by (cases "rq_id req") (auto simp: process_status_def)
  obtain f1 s1 where d1: "db_fault s = (f1, s1)" by (cases "db_fault s")
  note t1 = db_fault_tables [OF d1]
  from a pid d1 obtain job video where
    jv: "processing_results s1 processingId = Some job" "videos s1 (pr_video_id job) = Some video"
    and f1: "f1 = None"
    by (auto simp: process_status_def select_result_def split: option.splits if_splits)
  from a pid d1 jv f1 obtain hs ts cs where
    l: "load_artifacts processingId (pr_status job) s1 = (Inr (hs, ts, cs), s')"
    and r: "resp = \<lparr>res_id = processingId, res_videoId = pr_video_id job,
                     res_status = pr_status job, res_progress = pr_progress job,
                     res_errorMessage = pr_error_message job,
                     res_video = \<lparr>originalName = v_original_filename video,
                                   vi_size = v_file_size video,
                                   vi_type = v_mime_type video\<rparr>,
                     res_highlights = map highlight_json hs,
                     res_thumbnails = map thumbnail_json ts,
                     res_captions = map caption_json cs\<rparr>"
    by (auto simp: process_status_def select_result_def
        split: option.splits if_splits prod.splits sum.splits)
  note la = load_artifacts_result [OF l]
  have so1: "sorted (map hl_startTime (map highlight_json (sort_key hc_start_time xs)))"
    for xs :: "'a clip_row list"
    by (simp add: highlight_json_def comp_def)
  have so2: "sorted (map tn_timestamp (map thumbnail_json (sort_key th_timestamp xs)))"
    for xs :: "'a thumbnail_row list"
    by (simp add: thumbnail_json_def comp_def)
  from jv t1 have j0: "processing_results s processingId = Some job" by simp
  show "\<exists>processingId job. rq_id req = Some processingId
         \<and> processing_results s processingId = Some job
         \<and> res_id resp = processingId \<and> res_status resp = pr_status job
         \<and> res_progress resp = pr_progress job
         \<and> res_errorMessage resp = pr_error_message job
         \<and> (pr_status job = ''completed'' \<longrightarrow>
              res_highlights resp
                = map highlight_json
                    (sort_key hc_start_time
                       (filter (\<lambda>h. hc_processing_result_id h = processingId)
                          (highlight_clips s)))
              \<and> sorted (map hl_startTime (res_highlights resp))
              \<and> res_thumbnails resp
                = map thumbnail_json
                    (sort_key th_timestamp
                       (filter (\<lambda>t. th_processing_result_id t = processingId) (thumbnails s)))
              \<and> sorted (map tn_timestamp (res_thumbnails resp))
              \<and> res_captions resp
                = map caption_json
                    (filter (\<lambda>c. cp_processing_result_id c = processingId) (captions s)))
         \<and> (pr_status job \<noteq> ''completed'' \<longrightarrow>
              res_highlights resp = [] \<and> res_thumbnails resp = []
              \<and> res_captions resp = [])"
  proof (intro exI [of _ processingId] exI [of _ job] conjI impI)
    show "rq_id req = Some processingId" by (rule pid)
    show "processing_results s processingId = Some job" by (rule j0)
    show "res_id resp = processingId" "res_status resp = pr_status job"
      "res_progress resp = pr_progress job" "res_errorMessage resp = pr_error_message job"
      by (simp_all add: r)
  next
    assume c: "pr_status job = ''completed''"
    with la t1 have h: "hs = sort_key hc_start_time
               (filter (\<lambda>h. hc_processing_result_id h = processingId) (highlight_clips s))"
      and t: "ts = sort_key th_timestamp
                 (filter (\<lambda>t. th_processing_result_id t = processingId) (thumbnails s))"
      and cc: "cs = filter (\<lambda>c. cp_processing_result_id c = processingId) (captions s)"
      by simp_all
    show "res_highlights resp
                = map highlight_json
                    (sort_key hc_start_time
                       (filter (\<lambda>h. hc_processing_result_id h = processingId)
                          (highlight_clips s)))"
      by (simp add: r h)
    show "sorted (map hl_startTime (res_highlights resp))"
      unfolding r h using so1 by simp
    show "res_thumbnails resp
                = map thumbnail_json
                    (sort_key th_timestamp
                       (filter (\<lambda>t. th_processing_result_id t = processingId) (thumbnails s)))"
      by (simp add: r t)
    show "sorted (map tn_timestamp (res_thumbnails resp))"
      unfolding r t using so2 by simp
    show "res_captions resp
                = map caption_json
                    (filter (\<lambda>c. cp_processing_result_id c = processingId) (captions s))"
      by (simp add: r cc)
  next
    assume "pr_status job \<noteq> ''completed''"
    with la show "res_highlights resp = []" "res_thumbnails resp = []" "res_captions resp = []"
      by (simp_all add: r)
  qed
next
  assume a: "faults s = [] \<and> rq_id req = Some pid \<and> processing_results s pid = Some j
       \<and> videos s (pr_video_id j) = Some v \<and> \<not> access_denied req j"
  then obtain art where "load_artifacts pid (pr_status j) s = (Inr art, s)"
    using load_artifacts_no_fault [of s pid "pr_status j"] by blast
  with a show "\<exists>r. process_status req s = (Inr r, s)"
    by (cases art) (simp add: process_status_def select_result_def db_fault_def)
qed

theorem process_status_gates_on_completed_witness:
  "map hl_id (res_highlights (projr (fst (process_status (example_request 2 None)
                                            example_server)))) = [3, 2]
   \<and> map hl_startTime (res_highlights (projr (fst (process_status (example_request 2 None)
                                                     example_server)))) = [5, 60]
   \<and> map tn_timestamp (res_thumbnails (projr (fst (process_status (example_request 2 None)
                                                      example_server)))) = [20, 85]
   \<and> map ca_hashtags (res_captions (projr (fst (process_status (example_request 2 None)
                                                   example_server)))) = [[''a'', ''b'']]
   \<and> \<not> isl (fst (process_status (example_request 1 None) example_server))
   \<and> res_status (projr (fst (process_status (example_request 1 None) example_server)))
     = ''processing''
   \<and> res_highlights (projr (fst (process_status (example_request 1 None) example_server))) = []
   \<and> res_thumbnails (projr (fst (process_status (example_request 1 None) example_server))) = []
   \<and> res_captions (projr (fst (process_status (example_request 1 None) example_server))) = []"
proof -
  let ?j1 = "\<lparr>pr_video_id = 10, pr_user_id = None, pr_status = ''processing'',
              pr_progress = 0, pr_error_message = None\<rparr>"
  let ?j2 = "\<lparr>pr_video_id = 10, pr_user_id = None, pr_status = ''completed'',
              pr_progress = 100, pr_error_message = None\<rparr>"
  let ?v = "\<lparr>v_original_filename = ''talk.mp4'', v_file_path = ''videos/talk.mp4'',
             v_file_size = 1000, v_mime_type = ''video/mp4''\<rparr>"
  have pre1: "faults example_server = [] \<and> rq_id (example_request 1 None) = Some 1
       \<and> processing_results example_server 1 = Some ?j1
       \<and> videos example_server (pr_video_id ?j1) = Some ?v
       \<and> \<not> access_denied (example_request 1 None) ?j1"
    by (simp add: example_server_def example_request_def truthy_id_def access_denied_def)
  have pre2: "faults example_server = [] \<and> rq_id (example_request 2 None) = Some 2
       \<and> processing_results example_server 2 = Some ?j2
       \<and> videos example_server (pr_video_id ?j2) = Some ?v
       \<and> \<not> access_denied (example_request 2 None) ?j2"
    by (simp add: example_server_def example_request_def truthy_id_def access_denied_def)
  obtain r1 where r1: "process_status (example_request 1 None) example_server
                         = (Inr r1, example_server)"
    using process_status_gates_on_completed
      [of "example_request 1 None" example_server undefined undefined 1 ?j1 ?v,
       THEN conjunct2, THEN mp, OF pre1] by blast
  obtain r2 where r2: "process_status (example_request 2 None) example_server
                         = (Inr r2, example_server)"
    using process_status_gates_on_completed
      [of "example_request 2 None" example_server undefined undefined 2 ?j2 ?v,
       THEN conjunct2, THEN mp, OF pre2] by blast
  from process_status_gates_on_completed
      [of "example_request 1 None" example_server r1 example_server,
       THEN conjunct1, THEN mp, OF r1] pre1
  have e1: "res_status r1 = ''processing'' \<and> res_highlights r1 = []
            \<and> res_thumbnails r1 = [] \<and> res_captions r1 = []"
    by auto
  from process_status_gates_on_completed
      [of "example_request 2 None" example_server r2 example_server,
       THEN conjunct1, THEN mp, OF r2] pre2
  have e2: "res_highlights r2
                = map highlight_json
                    (sort_key hc_start_time
                       (filter (\<lambda>h. hc_processing_result_id h = 2)
                          (highlight_clips example_server)))
            \<and> res_thumbnails r2
                = map thumbnail_json
                    (sort_key th_timestamp
                       (filter (\<lambda>t. th_processing_result_id t = 2) (thumbnails example_server)))
            \<and> res_captions r2
                = map caption_json
                    (filter (\<lambda>c. cp_processing_result_id c = 2) (captions example_server))"
    by auto
  have "map hl_id (res_highlights r2) = [3, 2]
        \<and> map hl_startTime (res_highlights r2) = [5, 60]
        \<and> map tn_timestamp (res_thumbnails r2) = [20, 85]
        \<and> map ca_hashtags (res_captions r2) = [[''a'', ''b'']]"
    by (simp add: e2 example_server_def highlight_json_def thumbnail_json_def
          caption_json_def)
  with e1 show ?thesis by (simp add: r1 r2)
qed


section \<open>Concurrent deductions\<close>

lemma deduct_alone_is_deductCredits:
  "deduct_alone userId w
     = (Finished (fst (deductCredits userId None w)), snd (deductCredits userId None w))"
proof (cases "userId = 0")
  case True
  then show ?thesis
    by (simp add: deduct_alone_def deduct_step_def after_check_def deductCredits_def
          deduct_user_def checkCredits_def)
next
  case nz: False
  obtain rs w1 where s: "select_user userId w = (rs, w1)" by (cases "select_user userId w")
  show ?thesis
  proof (cases rs)
    case (Inl e)
    with nz s show ?thesis
      by (simp add: deduct_alone_def deduct_step_def deductCredits_def deduct_user_def
            checkCredits_def)
  next
    case (Inr ro)
    show ?thesis
    proof (cases ro)
      case None
      with nz s Inr show ?thesis
        by (simp add: deduct_alone_def deduct_step_def after_check_def deductCredits_def
              deduct_user_def checkCredits_def)
    next
      case (Some row)
      show ?thesis
      proof (cases "if isSubscribed (user_of userId row)
                    then subscriptionExpiresAt (user_of userId row) else None")
        case n: None
        with nz s Inr Some show ?thesis
          by (cases "deduct_update userId w1")
             (simp add: deduct_alone_def deduct_step_def after_check_def deductCredits_def
                deduct_user_def checkCredits_def balance_check_def Let_def)
      next
        case ex: (Some expirationDate)
        show ?thesis
        proof (cases "expirationDate > clock w1")
          case True
          with nz s Inr Some ex show ?thesis
            by (simp add: deduct_alone_def deduct_step_def after_check_def deductCredits_def
                  deduct_user_def checkCredits_def Let_def split: if_splits)
        next
          case False
          obtain ru w2 where u: "updateSubscriptionStatus userId False None w1 = (ru, w2)"
            by (cases "updateSubscriptionStatus userId False None w1")
          from nz s Inr Some ex False u show ?thesis
            by (cases ru; cases "deduct_update userId w2")
               (simp_all add: deduct_alone_def deduct_step_def after_check_def
                  deductCredits_def deduct_user_def checkCredits_def balance_check_def Let_def)
        qed
      qed
    qed
  qed
qed


lemma console_out_fields [simp]:
  "users (console_out e w) = users w" "clock (console_out e w) = clock w"
  "faults (console_out e w) = faults w"
  by (simp_all add: console_out_def)

lemma in_force_credits [simp]: "in_force now (r\<lparr>row_credits := c\<rparr>) = in_force now r"
  by (simp add: in_force_def)

lemma in_force_cleared [simp]:
  "\<not> in_force now (r\<lparr>row_is_subscribed := 0, row_subscription_expires_at := None\<rparr>)"
  by (simp add: in_force_def)

lemma after_check_passes:
  "credits u = 1 \<Longrightarrow> \<not> isSubscribed u \<Longrightarrow> after_check userId (balance_check u) w = (AtUpdate, w)"
  by (simp add: after_check_def balance_check_def)

lemma after_check_refuses:
  "credits u \<le> 0 \<Longrightarrow> \<not> isSubscribed u \<Longrightarrow>
     after_check userId (balance_check u) w
       = (Finished (Inl (HttpError ''Insufficient credits'' 402)), w)"
  by (simp add: after_check_def balance_check_def or_default_def)

lemma after_check_non_subscriber:
  "\<not> isSubscribed u \<Longrightarrow>
     after_check userId (balance_check u) w = (AtUpdate, w)
     \<or> after_check userId (balance_check u) w
         = (Finished (Inl (HttpError ''Insufficient credits'' 402)), w)"
  by (simp add: after_check_def balance_check_def or_default_def)

lemma race_inv_swap: "race_inv userId (a, b, w) = race_inv userId (b, a, w)"
  by (auto simp: race_inv_def)

lemma step_with_credit:
  assumes "faults w = []" "userId \<noteq> 0" "users w userId = Some row"
    "\<not> in_force (clock w) row" "row_credits row = 1" "on_the_way 1 a"
    "deduct_step userId a w = (a', w')"
  shows "faults w' = [] \<and> clock w' = clock w
     \<and> (\<exists>row'. users w' userId = Some row' \<and> \<not> in_force (clock w') row'
          \<and> (row_credits row' = 1 \<and> on_the_way 1 a' \<and> step_rank a < step_rank a'
              \<or> row_credits row' = 0 \<and> a' = Finished (Inr ()) \<and> a = AtUpdate))"
proof -
  from assms(6) consider "a = AtSelect" | "a = AtUpdate"
    | u where "a = AtDowngrade u" "credits u = 1"
    by (auto simp: on_the_way_def)
  then show ?thesis
  proof cases
    case 1
    show ?thesis
    proof (cases "row_is_subscribed row = 1")
      case True
      with assms(4) obtain t where "row_subscription_expires_at row = Some t" "\<not> t > clock w"
        by (auto simp: in_force_def split: option.splits)
      with assms(1-5,7) 1 True have "a' = AtDowngrade (user_of userId row)" "w' = w"
        by (auto simp: deduct_step_def select_user_def db_fault_def user_of_def Let_def)
      with assms(1-5) 1 show ?thesis
        by (simp add: on_the_way_def step_rank_def user_of_def)
    next
      case False
      then have "\<not> isSubscribed (user_of userId row)" "credits (user_of userId row) = 1"
        using assms(5) by (simp_all add: user_of_def)
      with assms(1-5,7) 1 have "a' = AtUpdate" "w' = w"
        by (auto simp: deduct_step_def select_user_def db_fault_def Let_def after_check_passes)
      with assms(1-5) 1 show ?thesis
        by (simp add: on_the_way_def step_rank_def)
    qed
  next
    case 2
    with assms(1-5,7) have "a' = Finished (Inr ())"
      "users w' = (users w)(userId \<mapsto> row\<lparr>row_credits := 0\<rparr>)"
      "faults w' = []" "clock w' = clock w"
      by (auto simp: deduct_step_def deduct_update_def db_fault_def)
    with assms(4) 2 show ?thesis by simp
  next
    case 3
    let ?u = "u\<lparr>isSubscribed := False, subscriptionExpiresAt := None\<rparr>"
    have "\<not> isSubscribed ?u" "credits ?u = 1" using 3 by simp_all
    then have ac: "after_check userId (balance_check ?u) v = (AtUpdate, v)" for v :: "'a world_scheme"
      by (rule after_check_passes [rotated])
    from assms(1-5,7) 3 have "a' = AtUpdate"
      "users w' = (users w)(userId \<mapsto> row\<lparr>row_is_subscribed := 0,
                                                row_subscription_expires_at := None\<rparr>)"
      "faults w' = []" "clock w' = clock w"
      by (auto simp: deduct_step_def updateSubscriptionStatus_def db_fault_def ac)
    with assms(5) 3 show ?thesis
      by (simp add: on_the_way_def step_rank_def)
  qed
qed

lemma step_without_credit:
  assumes "faults w = []" "userId \<noteq> 0" "users w userId = Some row"
    "\<not> in_force (clock w) row" "row_credits row = 0" "on_the_way 0 a \<or> insufficient a"
    "deduct_step userId a w = (a', w')"
  shows "faults w' = [] \<and> clock w' = clock w
     \<and> (\<exists>row'. users w' userId = Some row' \<and> \<not> in_force (clock w') row'
          \<and> row_credits row' = 0)
     \<and> (on_the_way 0 a' \<or> insufficient a')
     \<and> (step_rank a < step_rank a' \<or> step_rank a = 3 \<and> a' = a)"
proof -
  from assms(6) consider "a = AtSelect" | "a = AtUpdate" | u where "a = AtDowngrade u"
    | "insufficient a"
    by (auto simp: on_the_way_def)
  then show ?thesis
  proof cases
    case 1
    show ?thesis
    proof (cases "row_is_subscribed row = 1")
      case True
      with assms(4) obtain t where "row_subscription_expires_at row = Some t" "\<not> t > clock w"
        by (auto simp: in_force_def split: option.splits)
      with assms(1-5,7) 1 True have "a' = AtDowngrade (user_of userId row)" "w' = w"
        by (auto simp: deduct_step_def select_user_def db_fault_def user_of_def Let_def)
      with assms(1-5) 1 show ?thesis
        by (auto simp: on_the_way_def step_rank_def)
    next
      case False
      then have "\<not> isSubscribed (user_of userId row)" "credits (user_of userId row) \<le> 0"
        using assms(5) by (simp_all add: user_of_def)
      with assms(1-5,7) 1 have "a' = Finished (Inl (HttpError ''Insufficient credits'' 402))"
        "w' = w"
        by (auto simp: deduct_step_def select_user_def db_fault_def Let_def after_check_refuses)
      with assms(1-5) 1 show ?thesis
        by (auto simp: insufficient_def step_rank_def)
    qed
  next
    case 2
    with assms(1-5,7)
    have "a' = Finished (Inl (Error ''Failed to deduct credit - insufficient credits''))"
      "w' = w"
      by (auto simp: deduct_step_def deduct_update_def db_fault_def)
    with assms(1-5) 2 show ?thesis
      by (auto simp: insufficient_def step_rank_def)
  next
    case 3
    let ?u = "u\<lparr>isSubscribed := False, subscriptionExpiresAt := None\<rparr>"
    have ns: "\<not> isSubscribed ?u" by simp
    obtain v where v: "updateSubscriptionStatus userId False None w = (Inr (), v)"
      and vu: "users v = (users w)(userId \<mapsto> row\<lparr>row_is_subscribed := 0,
                                                    row_subscription_expires_at := None\<rparr>)"
      and vf: "faults v = []" and vc: "clock v = clock w"
      using assms(1,3) by (simp add: updateSubscriptionStatus_def db_fault_def)
    from assms(7) 3 v have st: "after_check userId (balance_check ?u) v = (a', w')"
      by (simp add: deduct_step_def)
    from after_check_non_subscriber [OF ns, of userId v] st
    have "(a' = AtUpdate \<or> a' = Finished (Inl (HttpError ''Insufficient credits'' 402)))
          \<and> w' = v"
      by auto
    with vu vf vc assms(5) 3 show ?thesis
      by (auto simp: on_the_way_def insufficient_def step_rank_def)
  next
    case 4
    with assms(1-5,7) show ?thesis
      by (auto simp: deduct_step_def insufficient_def step_rank_def)
  qed
qed

lemma step_finished: "deduct_step userId (Finished r) w = (Finished r, w)"
  by (simp add: deduct_step_def)

lemma race_step:
  assumes "race_inv userId (a, b, w)" and "deduct_step userId a w = (a', w')"
  shows "race_inv userId (a', b, w')
     \<and> (step_rank a < step_rank a' \<or> step_rank a = 3 \<and> a' = a)"
proof -
  from assms(1) obtain row where
    f: "faults w = []" and nz: "userId \<noteq> 0" and r: "users w userId = Some row"
    and nf: "\<not> in_force (clock w) row"
    and sh: "row_credits row = 1 \<and> on_the_way 1 a \<and> on_the_way 1 b
             \<or> row_credits row = 0
               \<and> (a = Finished (Inr ()) \<and> (on_the_way 0 b \<or> insufficient b)
                   \<or> b = Finished (Inr ()) \<and> (on_the_way 0 a \<or> insufficient a))"
    by (auto simp: race_inv_def)
  from sh consider
      (credit) "row_credits row = 1" "on_the_way 1 a" "on_the_way 1 b"
    | (a_won) "row_credits row = 0" "a = Finished (Inr ())" "on_the_way 0 b \<or> insufficient b"
    | (b_won) "row_credits row = 0" "b = Finished (Inr ())" "on_the_way 0 a \<or> insufficient a"
    by blast
  then show ?thesis
  proof cases
    case credit
    from step_with_credit [OF f nz r nf credit(1,2) assms(2)]
    obtain row' where f': "faults w' = []" and r': "users w' userId = Some row'"
      and nf': "\<not> in_force (clock w') row'"
      and c': "row_credits row' = 1 \<and> on_the_way 1 a' \<and> step_rank a < step_rank a'
               \<or> row_credits row' = 0 \<and> a' = Finished (Inr ()) \<and> a = AtUpdate"
      by blast
    from credit(3) have b0: "on_the_way 0 b" by (auto simp: on_the_way_def)
    from c' have rk: "step_rank a < step_rank a' \<or> step_rank a = 3 \<and> a' = a"
      by (auto simp: step_rank_def)
    from c' credit(3) b0
    have "row_credits row' = 1 \<and> on_the_way 1 a' \<and> on_the_way 1 b
          \<or> row_credits row' = 0
            \<and> (a' = Finished (Inr ()) \<and> (on_the_way 0 b \<or> insufficient b)
                \<or> b = Finished (Inr ()) \<and> (on_the_way 0 a' \<or> insufficient a'))"
      by blast
    with f' nz r' nf' have "race_inv userId (a', b, w')"
      unfolding race_inv_def by auto
    with rk show ?thesis by simp
  next
    case a_won
    with assms(2) have "a' = a" "w' = w" by (simp_all add: step_finished)
    with assms(1) a_won show ?thesis by (simp add: step_rank_def)
  next
    case b_won
    from step_without_credit [OF f nz r nf b_won(1,3) assms(2)]
    obtain row' where f': "faults w' = []" and r': "users w' userId = Some row'"
      and nf': "\<not> in_force (clock w') row'" and c': "row_credits row' = 0"
      and o': "on_the_way 0 a' \<or> insufficient a'"
      and rk: "step_rank a < step_rank a' \<or> step_rank a = 3 \<and> a' = a"
      by blast
    from c' o' b_won(2)
    have "row_credits row' = 1 \<and> on_the_way 1 a' \<and> on_the_way 1 b
          \<or> row_credits row' = 0
            \<and> (a' = Finished (Inr ()) \<and> (on_the_way 0 b \<or> insufficient b)
                \<or> b = Finished (Inr ()) \<and> (on_the_way 0 a' \<or> insufficient a'))"
      by blast
    with f' nz r' nf' have "race_inv userId (a', b, w')"
      unfolding race_inv_def by auto
    with rk show ?thesis by simp
  qed
qed

lemma race_interleave:
  "race_inv userId (a, b, w) \<Longrightarrow> interleave sched userId (a, b, w) = (a', b', w') \<Longrightarrow>
     race_inv userId (a', b', w')
     \<and> min 3 (step_rank a + length (filter id sched)) \<le> step_rank a'
     \<and> min 3 (step_rank b + length (filter Not sched)) \<le> step_rank b'"
proof (induction sched arbitrary: a b w)
  case Nil
  then show ?case by simp
next
  case (Cons first sched)
  show ?case
  proof (cases first)
    case True
    obtain a1 w1 where s: "deduct_step userId a w = (a1, w1)"
      by (cases "deduct_step userId a w")
    from race_step [OF Cons.prems(1) s]
    have i: "race_inv userId (a1, b, w1)"
      and rk: "step_rank a < step_rank a1 \<or> step_rank a = 3 \<and> a1 = a" by simp_all
    from Cons.prems(2) True s have "interleave sched userId (a1, b, w1) = (a', b', w')"
      by simp
    from Cons.IH [OF i this] rk True show ?thesis by auto
  next
    case False
    obtain b1 w1 where s: "deduct_step userId b w = (b1, w1)"
      by (cases "deduct_step userId b w")
    from Cons.prems(1) have "race_inv userId (b, a, w)" by (simp add: race_inv_swap)
    from race_step [OF this s]
    have i: "race_inv userId (a, b1, w1)"
      and rk: "step_rank b < step_rank b1 \<or> step_rank b = 3 \<and> b1 = b"
      by (simp_all add: race_inv_swap)
    from Cons.prems(2) False s have "interleave sched userId (a, b1, w1) = (a', b', w')"
      by simp
    from Cons.IH [OF i this] rk False show ?thesis by auto
  qed
qed


text \<open>
  Claim C9, as the code has it. Take a user with one credit whose subscription is not
  in force (no flag, or a passed expiry), a store that answers, and two calls of
  \<open>deductCredits\<close> for that user run under any schedule of their atomic statements.
  At no point have both calls succeeded. Once both have finished, exactly one has
  succeeded and the other has failed with an insufficient-credits error (the check's
  \<open>HttpError('Insufficient credits', 402)\<close> if it read the balance after the winner's
  write, else \<open>Error('Failed to deduct credit - insufficient credits')\<close> from the
  conditional update), and the balance is 0. Both have finished as soon as each has
  had three turns. (\<open>deduct_alone_is_deductCredits\<close> ties the steps to the function.)
\<close>

theorem concurrent_deductions_one_winner:
  "faults w = [] \<and> userId \<noteq> 0 \<and> users w userId = Some row \<and> row_credits row = 1
   \<and> \<not> in_force (clock w) row \<longrightarrow>
     (case interleave sched userId (AtSelect, AtSelect, w) of
        (a, b, w') \<Rightarrow>
          \<not> (a = Finished (Inr ()) \<and> b = Finished (Inr ()))
          \<and> ((\<exists>ra. a = Finished ra) \<and> (\<exists>rb. b = Finished rb) \<longrightarrow>
                (a = Finished (Inr ()) \<and> insufficient b
                 \<or> b = Finished (Inr ()) \<and> insufficient a)
                \<and> map_option row_credits (users w' userId) = Some 0)
          \<and> (3 \<le> length (filter id sched) \<and> 3 \<le> length (filter Not sched) \<longrightarrow>
                (\<exists>ra. a = Finished ra) \<and> (\<exists>rb. b = Finished rb)))"
proof
  assume h: "faults w = [] \<and> userId \<noteq> 0 \<and> users w userId = Some row \<and> row_credits row = 1
   \<and> \<not> in_force (clock w) row"
  then have start: "race_inv userId (AtSelect, AtSelect, w)"
    by (auto simp: race_inv_def on_the_way_def)
  obtain a b w' where run: "interleave sched userId (AtSelect, AtSelect, w) = (a, b, w')"
    by (cases "interleave sched userId (AtSelect, AtSelect, w)")
  from race_interleave [OF start run]
  have inv: "race_inv userId (a, b, w')"
    and ra: "min 3 (length (filter id sched)) \<le> step_rank a"
    and rb: "min 3 (length (filter Not sched)) \<le> step_rank b"
    by (simp_all add: step_rank_def)
  from inv obtain row' where r': "users w' userId = Some row'"
    and sh: "row_credits row' = 1 \<and> on_the_way 1 a \<and> on_the_way 1 b
             \<or> row_credits row' = 0
               \<and> (a = Finished (Inr ()) \<and> (on_the_way 0 b \<or> insufficient b)
                   \<or> b = Finished (Inr ()) \<and> (on_the_way 0 a \<or> insufficient a))"
    by (auto simp: race_inv_def)
  have nf: "\<not> on_the_way c (Finished r)" for c r
    by (simp add: on_the_way_def)
  have ni: "\<not> insufficient (Finished (Inr ()))"
    by (simp add: insufficient_def)
  have p1: "\<not> (a = Finished (Inr ()) \<and> b = Finished (Inr ()))"
    using sh nf ni by auto
  have p2: "(\<exists>ra. a = Finished ra) \<and> (\<exists>rb. b = Finished rb) \<longrightarrow>
                (a = Finished (Inr ()) \<and> insufficient b
                 \<or> b = Finished (Inr ()) \<and> insufficient a)
                \<and> map_option row_credits (users w' userId) = Some 0"
    using sh nf r' by auto
  have fin: "3 \<le> step_rank pc \<Longrightarrow> \<exists>r. pc = Finished r" for pc
    by (cases pc) (simp_all add: step_rank_def)
  have p3: "3 \<le> length (filter id sched) \<and> 3 \<le> length (filter Not sched) \<longrightarrow>
                (\<exists>ra. a = Finished ra) \<and> (\<exists>rb. b = Finished rb)"
    using ra rb fin by auto
  from p1 p2 p3 show "case interleave sched userId (AtSelect, AtSelect, w) of
        (a, b, w') \<Rightarrow>
          \<not> (a = Finished (Inr ()) \<and> b = Finished (Inr ()))
          \<and> ((\<exists>ra. a = Finished ra) \<and> (\<exists>rb. b = Finished rb) \<longrightarrow>
                (a = Finished (Inr ()) \<and> insufficient b
                 \<or> b = Finished (Inr ()) \<and> insufficient a)
                \<and> map_option row_credits (users w' userId) = Some 0)
          \<and> (3 \<le> length (filter id sched) \<and> 3 \<le> length (filter Not sched) \<longrightarrow>
                (\<exists>ra. a = Finished ra) \<and> (\<exists>rb. b = Finished rb))"
    by (simp add: run)
qed

lemma example_race_checks_first:
  "interleave [True, False, True, False] 6 (AtSelect, AtSelect, example_world 50 [])
     = (Finished (Inr ()),
        Finished (Inl (Error ''Failed to deduct credit - insufficient credits'')),
        console_out (ConsoleLog (''Credit deducted for user '' @ show_int 6))
          ((example_world 50 [])
             \<lparr>users := example_users(6 \<mapsto> \<lparr>row_credits = 0, row_is_subscribed = 0,
                                             row_subscription_expires_at = None\<rparr>)\<rparr>))"
  by (simp add: deduct_step_def select_user_def db_fault_def user_of_def Let_def
        balance_check_def after_check_def deduct_update_def console_out_def
        example_world_def example_users_def)

lemma example_race_one_after_the_other:
  "interleave [True, True, False, False] 6 (AtSelect, AtSelect, example_world 50 [])
     = (Finished (Inr ()),
        Finished (Inl (HttpError ''Insufficient credits'' 402)),
        console_out (ConsoleLog (''Credit deducted for user '' @ show_int 6))
          ((example_world 50 [])
             \<lparr>users := example_users(6 \<mapsto> \<lparr>row_credits = 0, row_is_subscribed = 0,
                                             row_subscription_expires_at = None\<rparr>)\<rparr>))"
  by (simp add: deduct_step_def select_user_def db_fault_def user_of_def Let_def
        balance_check_def after_check_def deduct_update_def console_out_def or_default_def
        example_world_def example_users_def)

theorem concurrent_deductions_one_winner_witness:
  "fst (interleave [True, False, True, False] 6 (AtSelect, AtSelect, example_world 50 []))
     = Finished (Inr ())
   \<and> fst (snd (interleave [True, False, True, False] 6
                  (AtSelect, AtSelect, example_world 50 [])))
     = Finished (Inl (Error ''Failed to deduct credit - insufficient credits''))
   \<and> fst (interleave [True, True, False, False] 6 (AtSelect, AtSelect, example_world 50 []))
     = Finished (Inr ())
   \<and> fst (snd (interleave [True, True, False, False] 6
                  (AtSelect, AtSelect, example_world 50 [])))
     = Finished (Inl (HttpError ''Insufficient credits'' 402))
   \<and> map_option row_credits
       (users (snd (snd (interleave [True, False, True, False] 6
                           (AtSelect, AtSelect, example_world 50 [])))) 6) = Some 0
   \<and> map_option row_credits
       (users (snd (snd (interleave [True, True, False, False] 6
                           (AtSelect, AtSelect, example_world 50 [])))) 6) = Some 0"
proof -
  let ?row = "\<lparr>row_credits = 1, row_is_subscribed = 0, row_subscription_expires_at = None\<rparr>"
  have pre: "faults (example_world 50 []) = [] \<and> (6::int) \<noteq> 0
     \<and> users (example_world 50 []) 6 = Some ?row \<and> row_credits ?row = 1
     \<and> \<not> in_force (clock (example_world 50 [])) ?row"
    by (simp add: example_world_def example_users_def in_force_def)
  note t1 = concurrent_deductions_one_winner
      [of "example_world 50 []" 6 ?row "[True, False, True, False]", THEN mp, OF pre]
  note t2 = concurrent_deductions_one_winner
      [of "example_world 50 []" 6 ?row "[True, True, False, False]", THEN mp, OF pre]
  from t1 have "map_option row_credits
       (users (snd (snd (interleave [True, False, True, False] 6
                           (AtSelect, AtSelect, example_world 50 [])))) 6) = Some 0"
    by (simp only: example_race_checks_first split_conv snd_conv) blast
  moreover from t2 have "map_option row_credits
       (users (snd (snd (interleave [True, True, False, False] 6
                           (AtSelect, AtSelect, example_world 50 [])))) 6) = Some 0"
    by (simp only: example_race_one_after_the_other split_conv snd_conv) blast
  ultimately show ?thesis
    by (simp only: example_race_checks_first example_race_one_after_the_other
          fst_conv snd_conv simp_thms)
qed

text \<open>
  The claim as worded covers every user with one stored credit. User 5 has one credit
  and a subscription in force at instant 50: both calls succeed, in sequence as well
  as interleaved, and the credit is still there.
\<close>

theorem concurrent_deductions_subscriber_counterexample:
  "users (example_world 50 []) 5
     = Some \<lparr>row_credits = 1, row_is_subscribed = 1, row_subscription_expires_at = Some 100\<rparr>
   \<and> fst (deductCredits 5 None (example_world 50 [])) = Inr ()
   \<and> fst (deductCredits 5 None (snd (deductCredits 5 None (example_world 50 [])))) = Inr ()
   \<and> fst (interleave [True, False, True, False, True, False] 5
            (AtSelect, AtSelect, example_world 50 [])) = Finished (Inr ())
   \<and> fst (snd (interleave [True, False, True, False, True, False] 5
                  (AtSelect, AtSelect, example_world 50 []))) = Finished (Inr ())
   \<and> users (snd (snd (interleave [True, False, True, False, True, False] 5
                        (AtSelect, AtSelect, example_world 50 [])))) 5
     = Some \<lparr>row_credits = 1, row_is_subscribed = 1, row_subscription_expires_at = Some 100\<rparr>"
  by (simp add: deductCredits_def deduct_user_def checkCredits_def
        deduct_step_def select_user_def db_fault_def user_of_def Let_def
        balance_check_def after_check_def console_out_def
        example_world_def example_users_def)


section \<open>Atomicity of a batch\<close>




lemma first_rejection_first:
  "k < length rs \<Longrightarrow> rs ! k = Inl err \<Longrightarrow> (\<forall>j<k. \<not> isl (rs ! j)) \<Longrightarrow>
     first_rejection rs = Some err"
proof (induction rs arbitrary: k rule: first_rejection.induct)
  case 1
  then show ?case by simp
next
  case (2 e rs)
  then show ?case by (cases k) auto
next
  case (3 x rs)
  then obtain k' where k': "k = Suc k'" by (cases k) auto
  with 3 have "k' < length rs" "rs ! k' = Inl err" by auto
  moreover have "\<forall>j<k'. \<not> isl (rs ! j)"
  proof (intro allI impI)
    fix j assume "j < k'"
    with 3(4) k' have "\<not> isl ((Inr x # rs) ! Suc j)" by (metis Suc_less_eq)
    then show "\<not> isl (rs ! j)" by simp
  qed
  ultimately show ?case using 3(1) by simp
qed


lemma execute_single_use:
  "execute drv t c = (res, t', c') \<Longrightarrow>
     execute drv t' c' = (Inl (Error ''Transaction has already been executed''), t', c')
     \<and> add q ps t' = Inl (Error ''Cannot add operations to an already executed transaction'')"
  by (auto simp: execute_def add_def Let_def split: if_splits prod.splits option.splits)





end
